theory Spec2Isabelle
  imports Complex_Main "HOL-Library.Word"
begin

unbundle bit_operations_syntax

section \<open>Photometric pose estimation of CNN-SLAM (Tracking/PoseEstimation)\<close>

text \<open>
  The development embeds \<^verbatim>\<open>CostFunctor\<close> and \<^verbatim>\<open>EstimateCameraPose\<close>.
  Conventions of the embedding:
  \<^item> \<^verbatim>\<open>CV_32F\<close> and \<^verbatim>\<open>CV_64F\<close> scalars are real numbers; the rounding of
    floating-point arithmetic and of the casts between float and double is not represented.
  \<^item> \<^verbatim>\<open>CV_8U\<close> scalars are 8-bit words, \<^verbatim>\<open>CV_32S\<close> scalars are integers.
  \<^item> A matrix with three columns is a list of rows, each row a triple; a matrix with one
    column is a list of scalars. The small square matrices are tuples of rows.
  \<^item> An access to the image outside of its bounds is the value \<open>Inl OutOfBounds\<close>.
\<close>

subsection \<open>Data\<close>

type_synonym vec3 = "real \<times> real \<times> real"
type_synonym mat3 = "vec3 \<times> vec3 \<times> vec3"
type_synonym vec4 = "real \<times> real \<times> real \<times> real"
type_synonym mat4 = "vec4 \<times> vec4 \<times> vec4 \<times> vec4"
type_synonym uchar = "8 word"
type_synonym Vec3b = "uchar \<times> uchar \<times> uchar"

datatype fault = OutOfBounds

text \<open>The colour image: \<^verbatim>\<open>rows\<close> is its height, \<^verbatim>\<open>cols\<close> its width, and
  \<open>data y x\<close> the pixel stored at row \<open>y\<close> and column \<open>x\<close>.\<close>

record Image =
  rows :: int
  cols :: int
  data :: "int \<Rightarrow> int \<Rightarrow> Vec3b"

text \<open>Modelled from the spec: the class \<^verbatim>\<open>ORB_SLAM2::KeyFrame\<close> is declared in
  KeyFrame.h, outside of the embedded sources. The record has the members that the
  estimator reads: the index-aligned arrays of the N high-gradient points (depth, square
  root of the depth uncertainty, homogeneous 2-D coordinate, observed colour), the inverse
  intrinsic matrix of the keyframe and its world pose. \<open>mHighGradPtPixels\<close> has one 8-bit
  channel and three columns: line 136 subtracts the \<^verbatim>\<open>CV_8U\<close> matrix \<^verbatim>\<open>pixels\<close> from
  it with the matrix operator \<^verbatim>\<open>-\<close>, which takes two operands of the same size and
  element type.\<close>

record KeyFrame =
  mHighGradPtDepth :: "real list"
  mHighGradPtSqrtUncertainty :: "real list"
  mHighGradPtHomo2dCoord :: "vec3 list"
  mHighGradPtPixels :: "Vec3b list"
  mInvK :: mat3
  Tcw :: mat4

text \<open>Modelled from the spec: \<^verbatim>\<open>KeyFrame::GetPose\<close> is defined outside of the embedded
  sources; it gives the world pose of the keyframe, a 4x4 rigid transform.\<close>

definition GetPose :: "KeyFrame \<Rightarrow> mat4" where
  "GetPose kf = Tcw kf"

text \<open>The parallel arrays of a keyframe have one row per high-gradient point.\<close>

definition wf_KeyFrame :: "KeyFrame \<Rightarrow> bool" where
  "wf_KeyFrame kf \<longleftrightarrow>
     length (mHighGradPtSqrtUncertainty kf) = length (mHighGradPtDepth kf) \<and>
     length (mHighGradPtHomo2dCoord kf) = length (mHighGradPtDepth kf) \<and>
     length (mHighGradPtPixels kf) = length (mHighGradPtDepth kf)"

record CostFunctor =
  imColor :: Image
  pReferenceKF :: KeyFrame
  Kt :: mat3
  invKt :: mat3
  cameraPixelNoise2 :: real

subsection \<open>Matrix operations of OpenCV\<close>

definition mat_t :: "mat3 \<Rightarrow> mat3" where
  "mat_t M = (case M of ((a, b, c), (d, e, f), (g, h, i)) \<Rightarrow> ((a, d, g), (b, e, h), (c, f, i)))"

text \<open>A row of a three-column matrix times a 3x3 matrix.\<close>

definition row_mul :: "vec3 \<Rightarrow> mat3 \<Rightarrow> vec3" where
  "row_mul v M = (case (v, M) of ((x, y, z), ((a, b, c), (d, e, f), (g, h, i))) \<Rightarrow>
     (x * a + y * d + z * g, x * b + y * e + z * h, x * c + y * f + z * i))"

definition row_add :: "vec3 \<Rightarrow> vec3 \<Rightarrow> vec3" where
  "row_add v w = (case (v, w) of ((x, y, z), (a, b, c)) \<Rightarrow> (x + a, y + b, z + c))"

text \<open>A row of \<^verbatim>\<open>repeat(d, 1, 3).mul(h)\<close>.\<close>

definition row_scale :: "real \<Rightarrow> vec3 \<Rightarrow> vec3" where
  "row_scale d h = (case h of (x, y, z) \<Rightarrow> (d * x, d * y, d * z))"

text \<open>\<^verbatim>\<open>repeat(tt, n, 1)\<close> for a matrix \<^verbatim>\<open>tt\<close> of one row.\<close>

definition repeat_rows :: "vec3 \<Rightarrow> nat \<Rightarrow> vec3 list" where
  "repeat_rows tt n = replicate n tt"

text \<open>Element-wise division of matrices (\<^verbatim>\<open>cv::divide\<close>). Where the divisor is zero
  the older releases of OpenCV store zero and the newer ones the IEEE quotient, which is
  not a real number; the embedding takes zero. Under a positive pixel noise no normaliser of a residual
  is zero.\<close>

definition cv_divide :: "real \<Rightarrow> real \<Rightarrow> real" where
  "cv_divide a b = (if b = 0 then 0 else a / b)"

text \<open>\<^verbatim>\<open>cvRound\<close>, the conversion to \<^verbatim>\<open>CV_32S\<close>: the nearest integer, a tie going to
  the even one. The 32-bit range of the result is not represented.\<close>

definition cvRound :: "real \<Rightarrow> int" where
  "cvRound x = (let f = \<lfloor>x\<rfloor>; d = x - of_int f
                in if d < 1 / 2 then f
                   else if 1 / 2 < d then f + 1
                   else if even f then f else f + 1)"

text \<open>\<^verbatim>\<open>cv::Rodrigues\<close> from a rotation vector to a rotation matrix.\<close>

definition Rodrigues :: "vec3 \<Rightarrow> mat3" where
  "Rodrigues r = (case r of (rx, ry, rz) \<Rightarrow>
     (let theta = sqrt (rx * rx + ry * ry + rz * rz)
      in if theta < 1 / 2 ^ 52 then ((1, 0, 0), (0, 1, 0), (0, 0, 1))
         else (let c = cos theta; s = sin theta; c1 = 1 - c;
                   x = rx / theta; y = ry / theta; z = rz / theta
               in ((c + c1 * x * x, c1 * x * y - s * z, c1 * x * z + s * y),
                   (c1 * x * y + s * z, c + c1 * y * y, c1 * y * z - s * x),
                   (c1 * x * z - s * y, c1 * y * z + s * x, c + c1 * z * z)))))"

text \<open>Comparison of a column with a scalar: 255 where it holds and 0 elsewhere.\<close>

definition ge_scalar :: "int list \<Rightarrow> int \<Rightarrow> uchar list" where
  "ge_scalar xs c = map (\<lambda>x. if c \<le> x then 255 else 0) xs"

definition lt_scalar :: "int list \<Rightarrow> int \<Rightarrow> uchar list" where
  "lt_scalar xs c = map (\<lambda>x. if x < c then 255 else 0) xs"

text \<open>\<^verbatim>\<open>bitwise_and(src1, src2, dst, mask)\<close>: the entries of \<open>dst\<close> under a non-zero
  mask entry receive the conjunction, the others keep their value.\<close>

definition bitwise_and :: "uchar list \<Rightarrow> uchar list \<Rightarrow> uchar list \<Rightarrow> uchar list \<Rightarrow> uchar list" where
  "bitwise_and src1 src2 dst msk =
     map (\<lambda>i. if msk ! i \<noteq> 0 then (src1 ! i) AND (src2 ! i) else dst ! i) [0..<length dst]"

text \<open>\<^verbatim>\<open>imColor.at<Vec3b>(y, x)\<close>.\<close>

definition Image_at :: "Image \<Rightarrow> int \<Rightarrow> int \<Rightarrow> fault + Vec3b" where
  "Image_at im y x =
     (if 0 \<le> y \<and> y < rows im \<and> 0 \<le> x \<and> x < cols im then Inr (data im y x)
      else Inl OutOfBounds)"

text \<open>Subtraction of \<^verbatim>\<open>CV_8U\<close> matrices saturates: \<^verbatim>\<open>saturate_cast<uchar>(a - b)\<close>.\<close>

definition sub_u8 :: "uchar \<Rightarrow> uchar \<Rightarrow> uchar" where
  "sub_u8 a b = (if b \<le> a then a - b else 0)"

definition sub_row :: "Vec3b \<Rightarrow> Vec3b \<Rightarrow> Vec3b" where
  "sub_row p q = (case (p, q) of ((a0, a1, a2), (b0, b1, b2)) \<Rightarrow>
     (sub_u8 a0 b0, sub_u8 a1 b1, sub_u8 a2 b2))"

text \<open>A row through \<^verbatim>\<open>convertTo(CV_32F)\<close>, \<^verbatim>\<open>pow(2)\<close>, \<^verbatim>\<open>reduce(SUM)\<close> and
  \<^verbatim>\<open>sqrt\<close>.\<close>

definition row_norm :: "Vec3b \<Rightarrow> real" where
  "row_norm p = (case p of (a, b, c) \<Rightarrow>
     sqrt ((real (unat a))\<^sup>2 + (real (unat b))\<^sup>2 + (real (unat c))\<^sup>2))"

text \<open>\<^verbatim>\<open>mean(m, mask)[0]\<close>: the sum of the entries under a non-zero mask entry, times
  the inverse of their number, or times zero when there is none.\<close>

definition cv_mean :: "real list \<Rightarrow> uchar list \<Rightarrow> real" where
  "cv_mean xs msk =
     (let sel = map fst (filter (\<lambda>(x, m). m \<noteq> 0) (zip xs msk)); nz = length sel
      in sum_list sel * (if nz \<noteq> 0 then 1 / real nz else 0))"

text \<open>\<^verbatim>\<open>memcpy(dst, src, n * sizeof(T))\<close> on arrays of scalars.\<close>

definition memcpy :: "real list \<Rightarrow> real list \<Rightarrow> nat \<Rightarrow> real list" where
  "memcpy dst src n = take n src @ drop n dst"

subsection \<open>The residual model: \<^verbatim>\<open>CostFunctor::operator()\<close>\<close>

text \<open>The template parameter \<^verbatim>\<open>T\<close>.\<close>

datatype scalar_type = T_double | T_float | T_other

text \<open>The projected 3-D points: the rows of
  \<^verbatim>\<open>(repeat(depth, 1, 3).mul(homo) * invKt * Rt + tt) * Kt\<close>.\<close>

definition proj3d_rows :: "real list \<Rightarrow> vec3 list \<Rightarrow> mat3 \<Rightarrow> mat3 \<Rightarrow> vec3 list \<Rightarrow> mat3 \<Rightarrow> vec3 list" where
  "proj3d_rows depth homo iKt Rt tt K' =
     map2 (\<lambda>p trow. row_mul (row_add p trow) K')
       (map (\<lambda>p. row_mul (row_mul p iKt) Rt) (map2 row_scale depth homo)) tt"

text \<open>\<^verbatim>\<open>proj3d.colRange(0, 2) / repeat(proj3d.col(2), 1, 2)\<close>, converted to
  \<^verbatim>\<open>CV_32S\<close>.\<close>

definition proj2d_rows :: "vec3 list \<Rightarrow> (int \<times> int) list" where
  "proj2d_rows proj3d =
     map (\<lambda>(x, y, z). (cvRound (cv_divide x z), cvRound (cv_divide y z))) proj3d"

text \<open>The validity mask, lines 109 to 116.\<close>

definition valid_mask :: "Image \<Rightarrow> (int \<times> int) list \<Rightarrow> (int \<times> int) list \<Rightarrow> uchar list" where
  "valid_mask im proj2d proj2dRight =
     (let valid = ge_scalar (map fst proj2d) 0;
          valid = bitwise_and valid (lt_scalar (map fst proj2d) (cols im)) valid valid;
          valid = bitwise_and valid (ge_scalar (map snd proj2d) 0) valid valid;
          valid = bitwise_and valid (lt_scalar (map snd proj2d) (rows im)) valid valid;
          valid = bitwise_and valid (ge_scalar (map fst proj2dRight) 0) valid valid;
          valid = bitwise_and valid (lt_scalar (map fst proj2dRight) (cols im)) valid valid;
          valid = bitwise_and valid (ge_scalar (map snd proj2dRight) 0) valid valid;
          valid = bitwise_and valid (lt_scalar (map snd proj2dRight) (rows im)) valid valid
      in valid)"

text \<open>The loop that extracts the pixels of the current frame, over the row indices
  \<open>is\<close>. The matrices \<^verbatim>\<open>pixels\<close> and \<^verbatim>\<open>pixelsRight\<close> are passed and returned.\<close>

fun extract_pixels ::
  "Image \<Rightarrow> uchar list \<Rightarrow> (int \<times> int) list \<Rightarrow> (int \<times> int) list \<Rightarrow> nat list \<Rightarrow>
   Vec3b list \<times> Vec3b list \<Rightarrow> fault + (Vec3b list \<times> Vec3b list)" where
  "extract_pixels im valid proj2d proj2dRight [] acc = Inr acc"
| "extract_pixels im valid proj2d proj2dRight (i # is) (pixels, pixelsRight) =
     (if valid ! i \<noteq> 0 then
        (case Image_at im (snd (proj2d ! i)) (fst (proj2d ! i)) of
           Inl e \<Rightarrow> Inl e
         | Inr pixel \<Rightarrow>
             (case Image_at im (snd (proj2dRight ! i)) (fst (proj2dRight ! i)) of
                Inl e \<Rightarrow> Inl e
              | Inr pixel' \<Rightarrow>
                  extract_pixels im valid proj2d proj2dRight is
                    (pixels[i := pixel], pixelsRight[i := pixel'])))
      else extract_pixels im valid proj2d proj2dRight is (pixels, pixelsRight))"

text \<open>The photometric residual of every row, lines 136 to 145.\<close>

definition photometric :: "Vec3b list \<Rightarrow> Vec3b list \<Rightarrow> real list" where
  "photometric ref pixels = map row_norm (map2 sub_row ref pixels)"

text \<open>The regularised residual \<^verbatim>\<open>regRes = res / var\<close>, lines 147 to 151.\<close>

definition regularised :: "real \<Rightarrow> real list \<Rightarrow> real list \<Rightarrow> real list" where
  "regularised noise2 res resRight =
     map2 (\<lambda>a b. cv_divide a (sqrt ((b - a)\<^sup>2 + 2 * noise2))) res resRight"

text \<open>The loop that sets the invalid points to the mean residual, lines 155 to 157.\<close>

fun fill_invalid :: "uchar list \<Rightarrow> real \<Rightarrow> nat list \<Rightarrow> real list \<Rightarrow> real list" where
  "fill_invalid valid meanRes [] regRes = regRes"
| "fill_invalid valid meanRes (i # is) regRes =
     fill_invalid valid meanRes is (if valid ! i = 0 then regRes[i := meanRes] else regRes)"

text \<open>The local matrices of one evaluation. \<open>junk\<close> and \<open>junkRight\<close> are the contents of
  the freshly allocated \<^verbatim>\<open>pixels\<close> and \<^verbatim>\<open>pixelsRight\<close>, which the code does not
  initialise.\<close>

definition proj2d_of :: "CostFunctor \<Rightarrow> vec3 \<Rightarrow> vec3 \<Rightarrow> (int \<times> int) list" where
  "proj2d_of F r t =
     (let kf = pReferenceKF F; Rt = mat_t (Rodrigues r);
          tt = repeat_rows t (length (mHighGradPtDepth kf))
      in proj2d_rows
           (proj3d_rows (mHighGradPtDepth kf) (mHighGradPtHomo2dCoord kf) (invKt F) Rt tt (Kt F)))"

definition proj2dRight_of :: "CostFunctor \<Rightarrow> vec3 \<Rightarrow> vec3 \<Rightarrow> (int \<times> int) list" where
  "proj2dRight_of F r t =
     (let kf = pReferenceKF F; Rt = mat_t (Rodrigues r);
          tt = repeat_rows t (length (mHighGradPtDepth kf))
      in proj2d_rows
           (proj3d_rows (map2 (+) (mHighGradPtDepth kf) (mHighGradPtSqrtUncertainty kf))
              (mHighGradPtHomo2dCoord kf) (invKt F) Rt tt (Kt F)))"

definition valid_of :: "CostFunctor \<Rightarrow> vec3 \<Rightarrow> vec3 \<Rightarrow> uchar list" where
  "valid_of F r t = valid_mask (imColor F) (proj2d_of F r t) (proj2dRight_of F r t)"

definition pixels_of ::
  "CostFunctor \<Rightarrow> (nat \<Rightarrow> Vec3b) \<Rightarrow> (nat \<Rightarrow> Vec3b) \<Rightarrow> vec3 \<Rightarrow> vec3 \<Rightarrow>
   fault + (Vec3b list \<times> Vec3b list)" where
  "pixels_of F junk junkRight r t =
     (let valid = valid_of F r t
      in extract_pixels (imColor F) valid (proj2d_of F r t) (proj2dRight_of F r t)
           [0..<length valid]
           (map junk [0..<length valid], map junkRight [0..<length valid]))"

text \<open>\<^verbatim>\<open>regRes\<close> as line 151 leaves it, and as the loop of line 155 leaves it.\<close>

definition regRes_of ::
  "CostFunctor \<Rightarrow> (nat \<Rightarrow> Vec3b) \<Rightarrow> (nat \<Rightarrow> Vec3b) \<Rightarrow> vec3 \<Rightarrow> vec3 \<Rightarrow> fault + real list" where
  "regRes_of F junk junkRight r t =
     (case pixels_of F junk junkRight r t of
        Inl e \<Rightarrow> Inl e
      | Inr (pixels, pixelsRight) \<Rightarrow>
          (let kf = pReferenceKF F;
               res = photometric (mHighGradPtPixels kf) pixels;
               resRight = photometric (mHighGradPtPixels kf) pixelsRight
           in Inr (regularised (cameraPixelNoise2 F) res resRight)))"

definition residual_of ::
  "CostFunctor \<Rightarrow> (nat \<Rightarrow> Vec3b) \<Rightarrow> (nat \<Rightarrow> Vec3b) \<Rightarrow> vec3 \<Rightarrow> vec3 \<Rightarrow> fault + real list" where
  "residual_of F junk junkRight r t =
     (case regRes_of F junk junkRight r t of
        Inl e \<Rightarrow> Inl e
      | Inr regRes \<Rightarrow>
          (let valid = valid_of F r t; meanRes = cv_mean regRes valid
           in Inr (fill_invalid valid meanRes [0..<length valid] regRes)))"

text \<open>The state that an evaluation works on: the functor with what it refers to, and the
  array \<^verbatim>\<open>residual\<close> of the caller.\<close>

record EvalState =
  self :: CostFunctor
  residual :: "real list"

text \<open>\<^verbatim>\<open>operator()\<close>: the returned boolean and the state after the call.\<close>

definition CostFunctor_operator ::
  "scalar_type \<Rightarrow> (nat \<Rightarrow> Vec3b) \<Rightarrow> (nat \<Rightarrow> Vec3b) \<Rightarrow> vec3 \<Rightarrow> vec3 \<Rightarrow> EvalState \<Rightarrow>
   fault + (bool \<times> EvalState)" where
  "CostFunctor_operator T junk junkRight r t s =
     (if T \<noteq> T_double \<and> T \<noteq> T_float then Inr (False, s)
      else
        (case residual_of (self s) junk junkRight r t of
           Inl e \<Rightarrow> Inl e
         | Inr regRes \<Rightarrow>
             Inr (True, s\<lparr>residual := memcpy (residual s) regRes (length regRes)\<rparr>)))"

subsection \<open>The driver: \<^verbatim>\<open>EstimateCameraPose\<close>\<close>

definition RotationAngle :: "mat3 \<Rightarrow> real" where
  "RotationAngle R = (case R of ((a, _, _), (_, e, _), (_, _, i)) \<Rightarrow> arccos ((a + e + i - 1) / 2))"

definition TranslationDist :: "vec3 \<Rightarrow> real" where
  "TranslationDist t = (case t of (x, y, z) \<Rightarrow> sqrt (x\<^sup>2 + y\<^sup>2 + z\<^sup>2))"

text \<open>The constructor of the functor.\<close>

definition CostFunctor_new :: "Image \<Rightarrow> KeyFrame \<Rightarrow> mat3 \<Rightarrow> mat3 \<Rightarrow> real \<Rightarrow> CostFunctor" where
  "CostFunctor_new im kf K invK noise2 =
     \<lparr>imColor = im, pReferenceKF = kf, Kt = mat_t K, invKt = mat_t invK,
      cameraPixelNoise2 = noise2\<rparr>"

text \<open>The 4x4 matrices of the driver.\<close>

definition zeros44 :: mat4 where
  "zeros44 = ((0, 0, 0, 0), (0, 0, 0, 0), (0, 0, 0, 0), (0, 0, 0, 0))"

text \<open>\<^verbatim>\<open>R.copyTo(T.rowRange(0, 3).colRange(0, 3))\<close>.\<close>

definition copyTo_block :: "mat3 \<Rightarrow> mat4 \<Rightarrow> mat4" where
  "copyTo_block R T =
     (case (R, T) of
        (((a, b, c), (d, e, f), (g, h, i)), ((_, _, _, x0), (_, _, _, x1), (_, _, _, x2), r3)) \<Rightarrow>
          ((a, b, c, x0), (d, e, f, x1), (g, h, i, x2), r3))"

text \<open>\<^verbatim>\<open>T.at<float>(i, 3) = v\<close> for a row \<open>i\<close> of 0 to 3.\<close>

definition set_col3 :: "nat \<Rightarrow> real \<Rightarrow> mat4 \<Rightarrow> mat4" where
  "set_col3 i v T =
     (case T of ((a0, b0, c0, d0), (a1, b1, c1, d1), (a2, b2, c2, d2), (a3, b3, c3, d3)) \<Rightarrow>
        if i = 0 then ((a0, b0, c0, v), (a1, b1, c1, d1), (a2, b2, c2, d2), (a3, b3, c3, d3))
        else if i = 1 then ((a0, b0, c0, d0), (a1, b1, c1, v), (a2, b2, c2, d2), (a3, b3, c3, d3))
        else if i = 2 then ((a0, b0, c0, d0), (a1, b1, c1, d1), (a2, b2, c2, v), (a3, b3, c3, d3))
        else ((a0, b0, c0, d0), (a1, b1, c1, d1), (a2, b2, c2, d2), (a3, b3, c3, v)))"

text \<open>\<^verbatim>\<open>T.col(3).rowRange(0, 3)\<close>, as a row.\<close>

definition col3_rows012 :: "mat4 \<Rightarrow> vec3" where
  "col3_rows012 T = (case T of ((_, _, _, x0), (_, _, _, x1), (_, _, _, x2), _) \<Rightarrow> (x0, x1, x2))"

definition row4_mul :: "vec4 \<Rightarrow> mat4 \<Rightarrow> vec4" where
  "row4_mul v M =
     (case (v, M) of
        ((x, y, z, w), ((a0, b0, c0, d0), (a1, b1, c1, d1), (a2, b2, c2, d2), (a3, b3, c3, d3))) \<Rightarrow>
          (x * a0 + y * a1 + z * a2 + w * a3, x * b0 + y * b1 + z * b2 + w * b3,
           x * c0 + y * c1 + z * c2 + w * c3, x * d0 + y * d1 + z * d2 + w * d3))"

definition mat4_mul :: "mat4 \<Rightarrow> mat4 \<Rightarrow> mat4" where
  "mat4_mul A B =
     (case A of (r0, r1, r2, r3) \<Rightarrow> (row4_mul r0 B, row4_mul r1 B, row4_mul r2 B, row4_mul r3 B))"

text \<open>The relative transform, lines 200 to 208.\<close>

definition Trel_of :: "vec3 \<Rightarrow> vec3 \<Rightarrow> mat4" where
  "Trel_of relRotationRodrigues relTranslation =
     (let Rrel = Rodrigues relRotationRodrigues;
          Trel = zeros44;
          Trel = copyTo_block Rrel Trel;
          Trel = set_col3 0 (fst relTranslation) Trel;
          Trel = set_col3 1 (fst (snd relTranslation)) Trel;
          Trel = set_col3 2 (snd (snd relTranslation)) Trel;
          Trel = set_col3 3 1 Trel
      in Trel)"

text \<open>The reprojection of the driver, lines 216 to 223.\<close>

definition driver_proj2d :: "mat3 \<Rightarrow> KeyFrame \<Rightarrow> mat3 \<Rightarrow> mat4 \<Rightarrow> (int \<times> int) list" where
  "driver_proj2d K kf Rrel Trel =
     proj2d_rows
       (proj3d_rows (mHighGradPtDepth kf) (mHighGradPtHomo2dCoord kf) (mat_t (mInvK kf))
          (mat_t Rrel) (repeat_rows (col3_rows012 Trel) (length (mHighGradPtDepth kf))) K)"

text \<open>The mask of the driver, lines 225 to 228.\<close>

definition driver_valid :: "Image \<Rightarrow> (int \<times> int) list \<Rightarrow> uchar list" where
  "driver_valid im proj2d =
     (let valid = ge_scalar (map fst proj2d) 0;
          valid = bitwise_and valid (lt_scalar (map fst proj2d) (rows im)) valid valid;
          valid = bitwise_and valid (ge_scalar (map snd proj2d) 0) valid valid;
          valid = bitwise_and valid (lt_scalar (map snd proj2d) (cols im)) valid valid
      in valid)"

text \<open>\<^verbatim>\<open>sum(valid)[0] / 255 / valid.rows\<close>.\<close>

definition ratio_of :: "uchar list \<Rightarrow> real" where
  "ratio_of valid = real (sum_list (map unat valid)) / 255 / real (length valid)"

text \<open>The constants of util/settings.h that the driver uses; the header is outside of the
  embedded sources, and the constants are parameters of the driver.\<close>

record Settings =
  TRACKING_NUM_PT :: nat
  TRACKING_HUBER_DELTA :: real

text \<open>What the arguments of \<^verbatim>\<open>EstimateCameraPose\<close> refer to. An optional output is
  \<open>None\<close> when its pointer is null, and holds the pointed value otherwise.\<close>

record World =
  arg_imColor :: Image
  arg_K :: mat3
  arg_invK :: mat3
  arg_pRefKF :: KeyFrame
  arg_Tcw :: mat4
  arg_rotAngle :: "real option"
  arg_transDist :: "real option"
  arg_validRatio :: "real option"

text \<open>The optimiser (\<^verbatim>\<open>ceres::Solve\<close> on the problem of one residual block) is a
  parameter: from the evaluation function, the functor, the scale of the Huber loss, the
  time budget and the initial parameters, it gives the final parameters and the final
  cost.\<close>

type_synonym solver =
  "((nat \<Rightarrow> Vec3b) \<Rightarrow> (nat \<Rightarrow> Vec3b) \<Rightarrow> vec3 \<Rightarrow> vec3 \<Rightarrow> EvalState \<Rightarrow> fault + (bool \<times> EvalState)) \<Rightarrow>
   CostFunctor \<Rightarrow> real \<Rightarrow> real \<Rightarrow> vec3 \<Rightarrow> vec3 \<Rightarrow> vec3 \<times> vec3 \<times> real"

definition EstimateCameraPose ::
  "Settings \<Rightarrow> solver \<Rightarrow> real \<Rightarrow> real \<Rightarrow> World \<Rightarrow> real \<times> World" where
  "EstimateCameraPose cfg Solve noise2 max_seconds w =
     (let relRotationRodrigues = (0, 0, 0);
          relTranslation = (0, 0, 0);
          F = CostFunctor_new (arg_imColor w) (arg_pRefKF w) (arg_K w) (arg_invK w) noise2;
          (relRotationRodrigues, relTranslation, final_cost) =
            Solve (CostFunctor_operator T_double) F (TRACKING_HUBER_DELTA cfg) max_seconds
              relRotationRodrigues relTranslation;
          Rrel = Rodrigues relRotationRodrigues;
          Trel = Trel_of relRotationRodrigues relTranslation;
          w = w\<lparr>arg_Tcw := mat4_mul Trel (GetPose (arg_pRefKF w))\<rparr>;
          w = w\<lparr>arg_rotAngle := map_option (\<lambda>_. RotationAngle Rrel) (arg_rotAngle w)\<rparr>;
          w = w\<lparr>arg_transDist :=
                  map_option (\<lambda>_. TranslationDist (col3_rows012 Trel)) (arg_transDist w)\<rparr>;
          w = w\<lparr>arg_validRatio :=
                  map_option
                    (\<lambda>_. ratio_of
                            (driver_valid (arg_imColor w)
                               (driver_proj2d (arg_K w) (arg_pRefKF w) Rrel Trel)))
                    (arg_validRatio w)\<rparr>
      in (final_cost / real (TRACKING_NUM_PT cfg), w))"

subsection \<open>Notions of the specification\<close>

text \<open>A pixel \<open>(u, v)\<close> lies in the bounds \<open>[0, width) \<times> [0, height)\<close> of the image.\<close>

definition in_image :: "Image \<Rightarrow> int \<times> int \<Rightarrow> bool" where
  "in_image im p \<longleftrightarrow> 0 \<le> fst p \<and> fst p < cols im \<and> 0 \<le> snd p \<and> snd p < rows im"

text \<open>The fraction of the pixels of a list that lie in the bounds of the image.\<close>

definition fraction_in_image :: "Image \<Rightarrow> (int \<times> int) list \<Rightarrow> real" where
  "fraction_in_image im ps = real (length (filter (in_image im) ps)) / real (length ps)"

text \<open>The L2 colour error between two colours.\<close>

definition l2_color_error :: "Vec3b \<Rightarrow> Vec3b \<Rightarrow> real" where
  "l2_color_error p q = (case (p, q) of ((a0, a1, a2), (b0, b1, b2)) \<Rightarrow>
     sqrt ((real_of_int (uint a0 - uint b0))\<^sup>2 + (real_of_int (uint a1 - uint b1))\<^sup>2 +
           (real_of_int (uint a2 - uint b2))\<^sup>2))"

text \<open>The normalised residual of a point from its two colour errors.\<close>

definition normalised_residual :: "real \<Rightarrow> real \<Rightarrow> real \<Rightarrow> real" where
  "normalised_residual noise2 res resShift = res / sqrt ((resShift - res)\<^sup>2 + 2 * noise2)"

text \<open>The indices of the valid points, and the arithmetic mean of the entries of a
  vector over them.\<close>

definition valid_indices :: "uchar list \<Rightarrow> nat list" where
  "valid_indices valid = filter (\<lambda>j. valid ! j \<noteq> 0) [0..<length valid]"

definition mean_over_valid :: "real list \<Rightarrow> uchar list \<Rightarrow> real" where
  "mean_over_valid rho valid =
     sum_list (map (\<lambda>j. rho ! j) (valid_indices valid)) / real (length (valid_indices valid))"

text \<open>The sum of the squared entries of a residual vector.\<close>

definition sum_squares :: "real list \<Rightarrow> real" where
  "sum_squares rs = sum_list (map (\<lambda>x. x\<^sup>2) rs)"

subsection \<open>A small scene\<close>

text \<open>An image of width 4 and height 2 in one colour, and keyframes under the identity
  calibration: one with a point at pixel (3, 1) and a point at pixel (7, 1), one with the
  first of these points only.\<close>

definition identity3 :: mat3 where
  "identity3 = ((1, 0, 0), (0, 1, 0), (0, 0, 1))"

definition identity4 :: mat4 where
  "identity4 = ((1, 0, 0, 0), (0, 1, 0, 0), (0, 0, 1, 0), (0, 0, 0, 1))"

definition scene_image :: Image where
  "scene_image = \<lparr>rows = 2, cols = 4, data = (\<lambda>y x. (2, 0, 0))\<rparr>"

definition scene_keyframe :: KeyFrame where
  "scene_keyframe =
     \<lparr>mHighGradPtDepth = [1, 1], mHighGradPtSqrtUncertainty = [0, 0],
      mHighGradPtHomo2dCoord = [(3, 1, 1), (7, 1, 1)],
      mHighGradPtPixels = [(0, 0, 0), (0, 0, 0)], mInvK = identity3, Tcw = identity4\<rparr>"

definition scene_keyframe_inside :: KeyFrame where
  "scene_keyframe_inside =
     \<lparr>mHighGradPtDepth = [1], mHighGradPtSqrtUncertainty = [0],
      mHighGradPtHomo2dCoord = [(3, 1, 1)],
      mHighGradPtPixels = [(2, 0, 0)], mInvK = identity3, Tcw = identity4\<rparr>"

definition scene_functor :: CostFunctor where
  "scene_functor = CostFunctor_new scene_image scene_keyframe identity3 identity3 (1 / 2)"

definition scene_state :: EvalState where
  "scene_state = \<lparr>self = scene_functor, residual = [7, 7, 7]\<rparr>"

definition scene_junk :: "nat \<Rightarrow> Vec3b" where
  "scene_junk i = (9, 9, 9)"

text \<open>An optimiser that stays at the initial parameters, with final cost zero.\<close>

definition scene_solver :: solver where
  "scene_solver ev F delta max_seconds r t = (r, t, 0)"

definition scene_settings :: Settings where
  "scene_settings = \<lparr>TRACKING_NUM_PT = 1, TRACKING_HUBER_DELTA = 1\<rparr>"

definition scene_world :: World where
  "scene_world =
     \<lparr>arg_imColor = scene_image, arg_K = identity3, arg_invK = identity3,
      arg_pRefKF = scene_keyframe_inside, arg_Tcw = zeros44,
      arg_rotAngle = Some 0, arg_transDist = None, arg_validRatio = Some 0\<rparr>"

text \<open>A keyframe whose only point is brighter than the image in the first channel, and the
  functor on it.\<close>

definition scene_keyframe_bright :: KeyFrame where
  "scene_keyframe_bright =
     \<lparr>mHighGradPtDepth = [1], mHighGradPtSqrtUncertainty = [0],
      mHighGradPtHomo2dCoord = [(3, 1, 1)],
      mHighGradPtPixels = [(3, 0, 0)], mInvK = identity3, Tcw = identity4\<rparr>"

definition scene_functor_bright :: CostFunctor where
  "scene_functor_bright =
     CostFunctor_new scene_image scene_keyframe_bright identity3 identity3 (1 / 2)"

text \<open>A keyframe whose pose is a quarter turn about the optical axis with a translation,
  and an optimiser that ends at a half turn about that axis with the translation
  (1, 2, 3).\<close>

definition scene_pose :: mat4 where
  "scene_pose = ((0, - 1, 0, 5), (1, 0, 0, 6), (0, 0, 1, 7), (0, 0, 0, 1))"

definition scene_world_posed :: World where
  "scene_world_posed =
     \<lparr>arg_imColor = scene_image, arg_K = identity3, arg_invK = identity3,
      arg_pRefKF = scene_keyframe_inside\<lparr>Tcw := scene_pose\<rparr>, arg_Tcw = zeros44,
      arg_rotAngle = None, arg_transDist = None, arg_validRatio = None\<rparr>"

definition scene_solver_moved :: solver where
  "scene_solver_moved ev F delta max_seconds r t = ((0, 0, pi), (1, 2, 3), 0)"

section \<open>Properties\<close>

subsection \<open>Masks, loops and shapes\<close>

lemma length_ge_scalar [simp]: "length (ge_scalar xs c) = length xs"
  by (simp add: ge_scalar_def)

lemma length_lt_scalar [simp]: "length (lt_scalar xs c) = length xs"
  by (simp add: lt_scalar_def)

lemma length_bitwise_and [simp]: "length (bitwise_and a b d m) = length d"
  by (simp add: bitwise_and_def)

lemma nth_ge_scalar [simp]:
  "i < length xs \<Longrightarrow> ge_scalar xs c ! i = (if c \<le> xs ! i then 255 else 0)"
  by (simp add: ge_scalar_def)

lemma nth_lt_scalar [simp]:
  "i < length xs \<Longrightarrow> lt_scalar xs c ! i = (if xs ! i < c then 255 else 0)"
  by (simp add: lt_scalar_def)

lemma nth_bitwise_and [simp]:
  "i < length d \<Longrightarrow>
   bitwise_and a b d m ! i = (if m ! i \<noteq> 0 then (a ! i) AND (b ! i) else d ! i)"
  by (simp add: bitwise_and_def)

lemma length_valid_mask [simp]: "length (valid_mask im p pr) = length p"
  by (simp add: valid_mask_def Let_def)

lemma nth_valid_mask:
  "i < length p \<Longrightarrow> length pr = length p \<Longrightarrow>
   valid_mask im p pr ! i = (if in_image im (p ! i) \<and> in_image im (pr ! i) then 255 else 0)"
  by (simp add: valid_mask_def Let_def in_image_def)

lemma extract_pixels_ok:
  "\<forall>i\<in>set js. valid ! i \<noteq> 0 \<longrightarrow> in_image im (p ! i) \<and> in_image im (pr ! i) \<Longrightarrow>
   \<exists>px pxr. extract_pixels im valid p pr js (a, b) = Inr (px, pxr) \<and>
     length px = length a \<and> length pxr = length b \<and>
     (\<forall>i<length a. px ! i =
        (if i \<in> set js \<and> valid ! i \<noteq> 0 then data im (snd (p ! i)) (fst (p ! i)) else a ! i)) \<and>
     (\<forall>i<length b. pxr ! i =
        (if i \<in> set js \<and> valid ! i \<noteq> 0 then data im (snd (pr ! i)) (fst (pr ! i)) else b ! i))"
proof (induction js arbitrary: a b)
  case Nil
  then show ?case by simp
next
  case (Cons j js)
  from Cons.prems
  have rest: "\<forall>i\<in>set js. valid ! i \<noteq> 0 \<longrightarrow> in_image im (p ! i) \<and> in_image im (pr ! i)"
    by simp
  show ?case
  proof (cases "valid ! j \<noteq> 0")
    case True
    let ?d = "data im (snd (p ! j)) (fst (p ! j))"
    let ?e = "data im (snd (pr ! j)) (fst (pr ! j))"
    from True Cons.prems have "in_image im (p ! j)" "in_image im (pr ! j)" by auto
    then have at: "Image_at im (snd (p ! j)) (fst (p ! j)) = Inr ?d"
      "Image_at im (snd (pr ! j)) (fst (pr ! j)) = Inr ?e"
      by (simp_all add: Image_at_def in_image_def)
    from Cons.IH [OF rest, of "a[j := ?d]" "b[j := ?e]"]
    obtain px pxr where
      run: "extract_pixels im valid p pr js (a[j := ?d], b[j := ?e]) = Inr (px, pxr)" and
      len: "length px = length a" "length pxr = length b" and
      px: "\<forall>i<length a. px ! i =
        (if i \<in> set js \<and> valid ! i \<noteq> 0 then data im (snd (p ! i)) (fst (p ! i))
         else (a[j := ?d]) ! i)" and
      pxr: "\<forall>i<length b. pxr ! i =
        (if i \<in> set js \<and> valid ! i \<noteq> 0 then data im (snd (pr ! i)) (fst (pr ! i))
         else (b[j := ?e]) ! i)"
      by auto
    have "extract_pixels im valid p pr (j # js) (a, b) = Inr (px, pxr)"
      using True at run by simp
    moreover have "\<forall>i<length a. px ! i =
        (if i \<in> set (j # js) \<and> valid ! i \<noteq> 0 then data im (snd (p ! i)) (fst (p ! i)) else a ! i)"
    proof (intro allI impI)
      fix i assume "i < length a"
      with px True show "px ! i =
        (if i \<in> set (j # js) \<and> valid ! i \<noteq> 0 then data im (snd (p ! i)) (fst (p ! i)) else a ! i)"
        by (cases "i = j") simp_all
    qed
    moreover have "\<forall>i<length b. pxr ! i =
        (if i \<in> set (j # js) \<and> valid ! i \<noteq> 0 then data im (snd (pr ! i)) (fst (pr ! i)) else b ! i)"
    proof (intro allI impI)
      fix i assume "i < length b"
      with pxr True show "pxr ! i =
        (if i \<in> set (j # js) \<and> valid ! i \<noteq> 0 then data im (snd (pr ! i)) (fst (pr ! i)) else b ! i)"
        by (cases "i = j") simp_all
    qed
    ultimately show ?thesis using len by blast
  next
    case False
    from Cons.IH [OF rest, of a b]
    obtain px pxr where
      run: "extract_pixels im valid p pr js (a, b) = Inr (px, pxr)" and
      len: "length px = length a" "length pxr = length b" and
      px: "\<forall>i<length a. px ! i =
        (if i \<in> set js \<and> valid ! i \<noteq> 0 then data im (snd (p ! i)) (fst (p ! i)) else a ! i)" and
      pxr: "\<forall>i<length b. pxr ! i =
        (if i \<in> set js \<and> valid ! i \<noteq> 0 then data im (snd (pr ! i)) (fst (pr ! i)) else b ! i)"
      by auto
    have "extract_pixels im valid p pr (j # js) (a, b) = Inr (px, pxr)"
      using False run by simp
    moreover have "\<forall>i<length a. px ! i =
        (if i \<in> set (j # js) \<and> valid ! i \<noteq> 0 then data im (snd (p ! i)) (fst (p ! i)) else a ! i)"
      using px False by auto
    moreover have "\<forall>i<length b. pxr ! i =
        (if i \<in> set (j # js) \<and> valid ! i \<noteq> 0 then data im (snd (pr ! i)) (fst (pr ! i)) else b ! i)"
      using pxr False by auto
    ultimately show ?thesis using len by blast
  qed
qed

lemma length_fill_invalid [simp]: "length (fill_invalid v m js xs) = length xs"
  by (induction js arbitrary: xs) simp_all

lemma nth_fill_invalid:
  "i < length xs \<Longrightarrow>
   fill_invalid v m js xs ! i = (if i \<in> set js \<and> v ! i = 0 then m else xs ! i)"
proof (induction js arbitrary: xs)
  case Nil
  then show ?case by simp
next
  case (Cons j js)
  show ?case
  proof (cases "v ! j = 0")
    case True
    have "fill_invalid v m (j # js) xs ! i = fill_invalid v m js (xs[j := m]) ! i"
      using True by simp
    also have "\<dots> = (if i \<in> set js \<and> v ! i = 0 then m else xs[j := m] ! i)"
      using Cons.IH [of "xs[j := m]"] Cons.prems by simp
    also have "\<dots> = (if i \<in> set (j # js) \<and> v ! i = 0 then m else xs ! i)"
      using True Cons.prems by (cases "i = j") auto
    finally show ?thesis .
  next
    case False
    then show ?thesis using Cons.IH [of xs] Cons.prems by auto
  qed
qed

lemma length_proj3d_rows [simp]:
  "length (proj3d_rows depth homo iKt Rt tt K') = min (min (length depth) (length homo)) (length tt)"
  by (simp add: proj3d_rows_def)

lemma length_proj2d_rows [simp]: "length (proj2d_rows xs) = length xs"
  by (simp add: proj2d_rows_def)

lemma length_proj2d_of:
  "wf_KeyFrame (pReferenceKF F) \<Longrightarrow> length (proj2d_of F r t) = length (mHighGradPtDepth (pReferenceKF F))"
  by (simp add: proj2d_of_def Let_def wf_KeyFrame_def repeat_rows_def)

lemma length_proj2dRight_of:
  "wf_KeyFrame (pReferenceKF F) \<Longrightarrow> length (proj2dRight_of F r t) = length (mHighGradPtDepth (pReferenceKF F))"
  by (simp add: proj2dRight_of_def Let_def wf_KeyFrame_def repeat_rows_def)

lemma length_valid_of:
  "wf_KeyFrame (pReferenceKF F) \<Longrightarrow> length (valid_of F r t) = length (mHighGradPtDepth (pReferenceKF F))"
  by (simp add: valid_of_def length_proj2d_of)

lemma nth_valid_of:
  "wf_KeyFrame (pReferenceKF F) \<Longrightarrow> i < length (mHighGradPtDepth (pReferenceKF F)) \<Longrightarrow>
   valid_of F r t ! i =
     (if in_image (imColor F) (proj2d_of F r t ! i) \<and> in_image (imColor F) (proj2dRight_of F r t ! i)
      then 255 else 0)"
  by (simp add: valid_of_def nth_valid_mask length_proj2d_of length_proj2dRight_of)

lemma pixels_of_ok:
  assumes "wf_KeyFrame (pReferenceKF F)"
  shows "\<exists>px pxr. pixels_of F junk junkRight r t = Inr (px, pxr) \<and>
           length px = length (mHighGradPtDepth (pReferenceKF F)) \<and>
           length pxr = length (mHighGradPtDepth (pReferenceKF F)) \<and>
           (\<forall>i<length (mHighGradPtDepth (pReferenceKF F)).
              px ! i = (if valid_of F r t ! i \<noteq> 0
                        then data (imColor F) (snd (proj2d_of F r t ! i)) (fst (proj2d_of F r t ! i))
                        else junk i) \<and>
              pxr ! i = (if valid_of F r t ! i \<noteq> 0
                         then data (imColor F) (snd (proj2dRight_of F r t ! i))
                                (fst (proj2dRight_of F r t ! i))
                         else junkRight i))"
proof -
  let ?v = "valid_of F r t"
  let ?n = "length (mHighGradPtDepth (pReferenceKF F))"
  have n: "length ?v = ?n" using assms by (rule length_valid_of)
  have "\<forall>i\<in>set [0..<length ?v]. ?v ! i \<noteq> 0 \<longrightarrow>
          in_image (imColor F) (proj2d_of F r t ! i) \<and> in_image (imColor F) (proj2dRight_of F r t ! i)"
    using assms by (auto simp: length_valid_of nth_valid_of split: if_splits)
  from extract_pixels_ok [OF this, of "map junk [0..<length ?v]" "map junkRight [0..<length ?v]"]
  show ?thesis unfolding pixels_of_def Let_def n by auto
qed

lemma length_photometric [simp]: "length (photometric ref px) = min (length ref) (length px)"
  by (simp add: photometric_def)

lemma length_regularised [simp]: "length (regularised c a b) = min (length a) (length b)"
  by (simp add: regularised_def)

lemma regRes_of_ok:
  assumes "wf_KeyFrame (pReferenceKF F)"
  shows "\<exists>px pxr. pixels_of F junk junkRight r t = Inr (px, pxr) \<and>
           length px = length (mHighGradPtDepth (pReferenceKF F)) \<and>
           length pxr = length (mHighGradPtDepth (pReferenceKF F)) \<and>
           regRes_of F junk junkRight r t =
             Inr (regularised (cameraPixelNoise2 F)
                    (photometric (mHighGradPtPixels (pReferenceKF F)) px)
                    (photometric (mHighGradPtPixels (pReferenceKF F)) pxr))"
  using pixels_of_ok [OF assms, of junk junkRight r t]
  by (auto simp: regRes_of_def Let_def)

lemma residual_of_ok:
  assumes "wf_KeyFrame (pReferenceKF F)"
  shows "\<exists>rho rs. regRes_of F junk junkRight r t = Inr rho \<and>
           length rho = length (mHighGradPtDepth (pReferenceKF F)) \<and>
           residual_of F junk junkRight r t = Inr rs \<and>
           length rs = length (mHighGradPtDepth (pReferenceKF F)) \<and>
           (\<forall>i<length (mHighGradPtDepth (pReferenceKF F)).
              rs ! i = (if valid_of F r t ! i = 0 then cv_mean rho (valid_of F r t) else rho ! i))"
proof -
  let ?n = "length (mHighGradPtDepth (pReferenceKF F))"
  from regRes_of_ok [OF assms, of junk junkRight r t]
  obtain px pxr where len: "length px = ?n" "length pxr = ?n" and
    rho: "regRes_of F junk junkRight r t =
             Inr (regularised (cameraPixelNoise2 F)
                    (photometric (mHighGradPtPixels (pReferenceKF F)) px)
                    (photometric (mHighGradPtPixels (pReferenceKF F)) pxr))"
    by blast
  let ?rho = "regularised (cameraPixelNoise2 F)
                (photometric (mHighGradPtPixels (pReferenceKF F)) px)
                (photometric (mHighGradPtPixels (pReferenceKF F)) pxr)"
  have lrho: "length ?rho = ?n" using assms len by (simp add: wf_KeyFrame_def)
  have lv: "length (valid_of F r t) = ?n" using assms by (rule length_valid_of)
  let ?rs = "fill_invalid (valid_of F r t) (cv_mean ?rho (valid_of F r t)) [0..<?n] ?rho"
  have "residual_of F junk junkRight r t = Inr ?rs"
    by (simp add: residual_of_def rho Let_def lv)
  moreover have "length ?rs = ?n" using lrho by simp
  moreover have "\<forall>i<?n. ?rs ! i =
      (if valid_of F r t ! i = 0 then cv_mean ?rho (valid_of F r t) else ?rho ! i)"
    using lrho by (simp add: nth_fill_invalid)
  ultimately show ?thesis using rho lrho by blast
qed

lemma zip_as_map_upt:
  "length xs = length ys \<Longrightarrow> zip xs ys = map (\<lambda>j. (xs ! j, ys ! j)) [0..<length ys]"
  by (rule nth_equalityI) simp_all

lemma cv_mean_eq_mean_over_valid:
  assumes "length xs = length msk"
  shows "cv_mean xs msk = mean_over_valid xs msk"
proof -
  have "map fst (filter (\<lambda>(x, m). m \<noteq> 0) (zip xs msk)) = map (\<lambda>j. xs ! j) (valid_indices msk)"
    by (simp add: zip_as_map_upt [OF assms] filter_map o_def valid_indices_def)
  then show ?thesis
    by (simp add: cv_mean_def mean_over_valid_def Let_def divide_inverse)
qed

lemma cv_mean_all_invalid:
  assumes "length xs = length msk" and "\<forall>i<length msk. msk ! i = 0"
  shows "cv_mean xs msk = 0"
proof -
  have "filter (\<lambda>(x, m). m \<noteq> 0) (zip xs msk) = []"
    using assms by (auto simp: filter_empty_conv set_zip)
  then show ?thesis by (simp add: cv_mean_def)
qed

lemma operator_ok:
  assumes "wf_KeyFrame (pReferenceKF (self s))" and "T = T_double \<or> T = T_float"
  shows "\<exists>rs. residual_of (self s) junk junkRight r t = Inr rs \<and>
           length rs = length (mHighGradPtDepth (pReferenceKF (self s))) \<and>
           CostFunctor_operator T junk junkRight r t s =
             Inr (True, s\<lparr>residual := rs @ drop (length rs) (residual s)\<rparr>)"
proof -
  from residual_of_ok [OF assms(1), of junk junkRight r t]
  obtain rs where rs: "residual_of (self s) junk junkRight r t = Inr rs"
    "length rs = length (mHighGradPtDepth (pReferenceKF (self s)))"
    by blast
  have "CostFunctor_operator T junk junkRight r t s =
          Inr (True, s\<lparr>residual := rs @ drop (length rs) (residual s)\<rparr>)"
    using assms(2) rs(1) by (auto simp: CostFunctor_operator_def memcpy_def)
  with rs show ?thesis by blast
qed

subsection \<open>Monotonicity in the pixel noise\<close>

lemma row_norm_nonneg: "0 \<le> row_norm p"
  by (cases p) (simp add: row_norm_def)

lemma photometric_nonneg:
  "i < length (photometric ref px) \<Longrightarrow> 0 \<le> photometric ref px ! i"
  by (simp add: photometric_def row_norm_nonneg)

lemma nth_regularised:
  "i < length a \<Longrightarrow> i < length b \<Longrightarrow>
   regularised c a b ! i = cv_divide (a ! i) (sqrt ((b ! i - a ! i)\<^sup>2 + 2 * c))"
  by (simp add: regularised_def)

lemma cv_divide_noise_mono:
  assumes "0 \<le> a" and "0 < c1" and "c1 \<le> c2"
  shows "0 \<le> cv_divide a (sqrt (d\<^sup>2 + 2 * c2))"
    and "cv_divide a (sqrt (d\<^sup>2 + 2 * c2)) \<le> cv_divide a (sqrt (d\<^sup>2 + 2 * c1))"
proof -
  have p1: "0 < sqrt (d\<^sup>2 + 2 * c1)"
    using assms(2) by (intro real_sqrt_gt_zero add_nonneg_pos) simp_all
  have le: "sqrt (d\<^sup>2 + 2 * c1) \<le> sqrt (d\<^sup>2 + 2 * c2)"
    using assms(3) by simp
  with p1 have p2: "0 < sqrt (d\<^sup>2 + 2 * c2)" by linarith
  show "0 \<le> cv_divide a (sqrt (d\<^sup>2 + 2 * c2))"
    using assms(1) p2 by (simp add: cv_divide_def)
  have "a / sqrt (d\<^sup>2 + 2 * c2) \<le> a / sqrt (d\<^sup>2 + 2 * c1)"
    using assms(1) p1 p2 le by (simp add: frac_le)
  then show "cv_divide a (sqrt (d\<^sup>2 + 2 * c2)) \<le> cv_divide a (sqrt (d\<^sup>2 + 2 * c1))"
    using p1 p2 by (simp add: cv_divide_def)
qed

lemma noise_irrelevant:
  "proj2d_of (F\<lparr>cameraPixelNoise2 := c\<rparr>) r t = proj2d_of F r t"
  "proj2dRight_of (F\<lparr>cameraPixelNoise2 := c\<rparr>) r t = proj2dRight_of F r t"
  "valid_of (F\<lparr>cameraPixelNoise2 := c\<rparr>) r t = valid_of F r t"
  "pixels_of (F\<lparr>cameraPixelNoise2 := c\<rparr>) junk junkRight r t = pixels_of F junk junkRight r t"
  by (simp_all add: proj2d_of_def proj2dRight_of_def valid_of_def pixels_of_def)

lemma sum_squares_mono:
  "length xs = length ys \<Longrightarrow> \<forall>i<length xs. 0 \<le> xs ! i \<and> xs ! i \<le> ys ! i \<Longrightarrow>
   sum_squares xs \<le> sum_squares ys"
proof (induction xs ys rule: list_induct2)
  case Nil
  then show ?case by (simp add: sum_squares_def)
next
  case (Cons x xs y ys)
  from Cons.prems have h: "0 \<le> x" "x \<le> y" by force+
  from Cons.prems have "\<forall>i<length xs. 0 \<le> xs ! i \<and> xs ! i \<le> ys ! i" by force
  with Cons.IH have "sum_squares xs \<le> sum_squares ys" by simp
  moreover from h have "x\<^sup>2 \<le> y\<^sup>2" by (simp add: power_mono)
  ultimately show ?case by (simp add: sum_squares_def)
qed

lemma mean_over_valid_mono:
  assumes "\<forall>i<length v. 0 \<le> xs ! i \<and> xs ! i \<le> ys ! i"
  shows "0 \<le> mean_over_valid xs v" and "mean_over_valid xs v \<le> mean_over_valid ys v"
proof -
  have mem: "\<And>j. j \<in> set (valid_indices v) \<Longrightarrow> j < length v"
    by (simp add: valid_indices_def)
  have "0 \<le> sum_list (map (\<lambda>j. xs ! j) (valid_indices v))"
    using assms mem by (intro sum_list_nonneg) auto
  then show "0 \<le> mean_over_valid xs v"
    by (simp add: mean_over_valid_def)
  have "sum_list (map (\<lambda>j. xs ! j) (valid_indices v)) \<le> sum_list (map (\<lambda>j. ys ! j) (valid_indices v))"
    using assms mem by (intro sum_list_mono) auto
  then show "mean_over_valid xs v \<le> mean_over_valid ys v"
    by (simp add: mean_over_valid_def divide_right_mono)
qed

subsection \<open>The small scene, evaluated\<close>

lemma Rodrigues_zero: "Rodrigues (0, 0, 0) = ((1, 0, 0), (0, 1, 0), (0, 0, 1))"
  by (simp add: Rodrigues_def)

lemma cvRound_of_int: "cvRound (of_int k) = k"
  by (simp add: cvRound_def Let_def)

lemma scene_proj2d: "proj2d_of scene_functor (0, 0, 0) (0, 0, 0) = [(3, 1), (7, 1)]"
  using cvRound_of_int [of 3] cvRound_of_int [of 1] cvRound_of_int [of 7]
  by (simp add: proj2d_of_def scene_functor_def CostFunctor_new_def scene_keyframe_def
      scene_image_def identity3_def Rodrigues_zero mat_t_def repeat_rows_def proj3d_rows_def
      proj2d_rows_def row_mul_def row_add_def row_scale_def cv_divide_def Let_def)

lemma scene_proj2dRight: "proj2dRight_of scene_functor (0, 0, 0) (0, 0, 0) = [(3, 1), (7, 1)]"
  using cvRound_of_int [of 3] cvRound_of_int [of 1] cvRound_of_int [of 7]
  by (simp add: proj2dRight_of_def scene_functor_def CostFunctor_new_def scene_keyframe_def
      scene_image_def identity3_def Rodrigues_zero mat_t_def repeat_rows_def proj3d_rows_def
      proj2d_rows_def row_mul_def row_add_def row_scale_def cv_divide_def Let_def)

lemma scene_functor_fields:
  "imColor scene_functor = scene_image" "pReferenceKF scene_functor = scene_keyframe"
  "cameraPixelNoise2 scene_functor = 1 / 2"
  by (simp_all add: scene_functor_def CostFunctor_new_def)

lemma scene_keyframe_wf: "wf_KeyFrame scene_keyframe"
  "length (mHighGradPtDepth scene_keyframe) = 2"
  by (simp_all add: wf_KeyFrame_def scene_keyframe_def)

lemma scene_valid:
  "valid_of scene_functor (0, 0, 0) (0, 0, 0) ! 0 = 255"
  "valid_of scene_functor (0, 0, 0) (0, 0, 0) ! Suc 0 = 0"
  using nth_valid_of [of scene_functor 0 "(0, 0, 0)" "(0, 0, 0)"]
    nth_valid_of [of scene_functor 1 "(0, 0, 0)" "(0, 0, 0)"]
  by (simp_all add: scene_functor_fields scene_keyframe_wf scene_proj2d scene_proj2dRight
      in_image_def scene_image_def)

lemma scene_state_fields:
  "self scene_state = scene_functor" "residual scene_state = [7, 7, 7]"
  by (simp_all add: scene_state_def)

lemma scene_proj2d_far: "proj2d_of scene_functor (0, 0, 0) (100, 0, 0) = [(103, 1), (107, 1)]"
  using cvRound_of_int [of 103] cvRound_of_int [of 1] cvRound_of_int [of 107]
  by (simp add: proj2d_of_def scene_functor_def CostFunctor_new_def scene_keyframe_def
      scene_image_def identity3_def Rodrigues_zero mat_t_def repeat_rows_def proj3d_rows_def
      proj2d_rows_def row_mul_def row_add_def row_scale_def cv_divide_def Let_def)

lemma scene_valid_far:
  "valid_of scene_functor (0, 0, 0) (100, 0, 0) ! 0 = 0"
  "valid_of scene_functor (0, 0, 0) (100, 0, 0) ! Suc 0 = 0"
  using nth_valid_of [of scene_functor 0 "(0, 0, 0)" "(100, 0, 0)"]
    nth_valid_of [of scene_functor 1 "(0, 0, 0)" "(100, 0, 0)"]
  by (simp_all add: scene_functor_fields scene_keyframe_wf scene_proj2d_far
      in_image_def scene_image_def)

lemma less_two_cases: "i < (2::nat) \<longleftrightarrow> i = 0 \<or> i = Suc 0"
  by auto

lemma scene_pixels:
  "pixels_of scene_functor scene_junk scene_junk (0, 0, 0) (0, 0, 0) =
     Inr ([(2, 0, 0), (9, 9, 9)], [(2, 0, 0), (9, 9, 9)])"
proof -
  from pixels_of_ok [of scene_functor scene_junk scene_junk "(0, 0, 0)" "(0, 0, 0)"]
  obtain px pxr where
    run: "pixels_of scene_functor scene_junk scene_junk (0, 0, 0) (0, 0, 0) = Inr (px, pxr)" and
    len: "length px = 2" "length pxr = 2" and
    ent: "\<forall>i<2. px ! i = (if valid_of scene_functor (0, 0, 0) (0, 0, 0) ! i \<noteq> 0
                        then data scene_image (snd (proj2d_of scene_functor (0, 0, 0) (0, 0, 0) ! i))
                               (fst (proj2d_of scene_functor (0, 0, 0) (0, 0, 0) ! i))
                        else scene_junk i) \<and>
              pxr ! i = (if valid_of scene_functor (0, 0, 0) (0, 0, 0) ! i \<noteq> 0
                         then data scene_image (snd (proj2dRight_of scene_functor (0, 0, 0) (0, 0, 0) ! i))
                                (fst (proj2dRight_of scene_functor (0, 0, 0) (0, 0, 0) ! i))
                         else scene_junk i)"
    by (auto simp: scene_functor_fields scene_keyframe_wf)
  from ent [rule_format, of 0] ent [rule_format, of 1]
  have e: "px ! 0 = (2, 0, 0)" "px ! Suc 0 = (9, 9, 9)" "pxr ! 0 = (2, 0, 0)" "pxr ! Suc 0 = (9, 9, 9)"
    by (simp_all add: scene_valid scene_image_def scene_junk_def)
  have "px = [(2, 0, 0), (9, 9, 9)]" "pxr = [(2, 0, 0), (9, 9, 9)]"
    using len e by (simp_all add: list_eq_iff_nth_eq less_two_cases)
  with run show ?thesis by simp
qed

lemma scene_regRes:
  "regRes_of scene_functor scene_junk scene_junk (0, 0, 0) (0, 0, 0) = Inr [0, 0]"
  by (simp add: regRes_of_def scene_pixels scene_functor_fields scene_keyframe_def Let_def
      photometric_def regularised_def sub_row_def sub_u8_def row_norm_def cv_divide_def)

lemma scene_valid_list: "valid_of scene_functor (0, 0, 0) (0, 0, 0) = [255, 0]"
  using length_valid_of [of scene_functor "(0, 0, 0)" "(0, 0, 0)"]
  by (simp add: list_eq_iff_nth_eq less_two_cases scene_valid scene_functor_fields
      scene_keyframe_wf)

lemma scene_residual:
  "residual_of scene_functor scene_junk scene_junk (0, 0, 0) (0, 0, 0) = Inr [0, 0]"
  by (simp add: residual_of_def scene_regRes scene_valid_list cv_mean_def Let_def)

lemma Trel_of_shape:
  "Rodrigues r = ((a, b, c), (d, e, f), (g, h, i)) \<Longrightarrow>
   Trel_of r (tx, ty, tz) = ((a, b, c, tx), (d, e, f, ty), (g, h, i, tz), (0, 0, 0, 1))"
  by (simp add: Trel_of_def zeros44_def copyTo_block_def set_col3_def)

lemma scene_driver_proj2d:
  "driver_proj2d identity3 scene_keyframe_inside (Rodrigues (0, 0, 0))
     (Trel_of (0, 0, 0) (0, 0, 0)) = [(3, 1)]"
  using cvRound_of_int [of 3] cvRound_of_int [of 1]
  by (simp add: driver_proj2d_def Trel_of_shape [OF Rodrigues_zero] Rodrigues_zero
      scene_keyframe_inside_def identity3_def mat_t_def col3_rows012_def repeat_rows_def
      proj3d_rows_def proj2d_rows_def row_mul_def row_add_def row_scale_def cv_divide_def)

lemma scene_operator:
  "CostFunctor_operator T_double scene_junk scene_junk (0, 0, 0) (0, 0, 0) scene_state =
     Inr (True, scene_state\<lparr>residual := [0, 0, 7]\<rparr>)"
  by (simp add: CostFunctor_operator_def scene_state_fields scene_residual memcpy_def)

lemma scene_inside_proj2d:
  "proj2d_of (CostFunctor_new scene_image scene_keyframe_inside identity3 identity3 (1 / 2))
     (0, 0, 0) (0, 0, 0) = [(3, 1)]"
  "proj2dRight_of (CostFunctor_new scene_image scene_keyframe_inside identity3 identity3 (1 / 2))
     (0, 0, 0) (0, 0, 0) = [(3, 1)]"
  using cvRound_of_int [of 3] cvRound_of_int [of 1]
  by (simp_all add: proj2d_of_def proj2dRight_of_def CostFunctor_new_def
      scene_keyframe_inside_def identity3_def Rodrigues_zero mat_t_def repeat_rows_def
      proj3d_rows_def proj2d_rows_def row_mul_def row_add_def row_scale_def cv_divide_def)

lemma scene_inside_valid:
  "valid_of (CostFunctor_new scene_image scene_keyframe_inside identity3 identity3 (1 / 2))
     (0, 0, 0) (0, 0, 0) ! 0 = 255"
  using nth_valid_of [of "CostFunctor_new scene_image scene_keyframe_inside identity3 identity3 (1 / 2)"
      0 "(0, 0, 0)" "(0, 0, 0)"]
  by (simp add: scene_inside_proj2d in_image_def)
    (simp add: CostFunctor_new_def wf_KeyFrame_def scene_keyframe_inside_def scene_image_def)

lemma Rodrigues_half_turn: "Rodrigues (0, 0, pi) = ((- 1, 0, 0), (0, - 1, 0), (0, 0, 1))"
proof -
  have "\<not> pi < 1 / 2 ^ 52"
  proof -
    have "(1::real) / 2 ^ 52 \<le> 1" by simp
    with pi_ge_two show ?thesis by linarith
  qed
  then show ?thesis by (simp add: Rodrigues_def Let_def)
qed

lemma bright_fields:
  "imColor scene_functor_bright = scene_image"
  "pReferenceKF scene_functor_bright = scene_keyframe_bright"
  "wf_KeyFrame scene_keyframe_bright"
  "length (mHighGradPtDepth scene_keyframe_bright) = 1"
  "mHighGradPtPixels scene_keyframe_bright = [(3, 0, 0)]"
  by (simp_all add: scene_functor_bright_def CostFunctor_new_def wf_KeyFrame_def
      scene_keyframe_bright_def)

lemma bright_proj2d:
  "proj2d_of scene_functor_bright (0, 0, 0) (0, 0, 0) = [(3, 1)]"
  "proj2dRight_of scene_functor_bright (0, 0, 0) (0, 0, 0) = [(3, 1)]"
  using cvRound_of_int [of 3] cvRound_of_int [of 1]
  by (simp_all add: proj2d_of_def proj2dRight_of_def scene_functor_bright_def
      CostFunctor_new_def scene_keyframe_bright_def identity3_def Rodrigues_zero mat_t_def
      repeat_rows_def proj3d_rows_def proj2d_rows_def row_mul_def row_add_def row_scale_def
      cv_divide_def)

lemma bright_valid: "valid_of scene_functor_bright (0, 0, 0) (0, 0, 0) = [255]"
proof -
  have "valid_of scene_functor_bright (0, 0, 0) (0, 0, 0) ! 0 = 255"
    using nth_valid_of [of scene_functor_bright 0 "(0, 0, 0)" "(0, 0, 0)"]
    by (simp add: bright_fields bright_proj2d in_image_def scene_image_def)
  moreover have "length (valid_of scene_functor_bright (0, 0, 0) (0, 0, 0)) = 1"
    using length_valid_of [of scene_functor_bright "(0, 0, 0)" "(0, 0, 0)"]
    by (simp add: bright_fields)
  ultimately show ?thesis by (simp add: list_eq_iff_nth_eq)
qed

lemma bright_pixels:
  "pixels_of scene_functor_bright scene_junk scene_junk (0, 0, 0) (0, 0, 0) =
     Inr ([(2, 0, 0)], [(2, 0, 0)])"
proof -
  from pixels_of_ok [of scene_functor_bright scene_junk scene_junk "(0, 0, 0)" "(0, 0, 0)"]
  obtain px pxr where
    run: "pixels_of scene_functor_bright scene_junk scene_junk (0, 0, 0) (0, 0, 0) = Inr (px, pxr)" and
    len: "length px = 1" "length pxr = 1" and
    ent: "px ! 0 = (2, 0, 0)" "pxr ! 0 = (2, 0, 0)"
    by (auto simp: bright_fields bright_valid bright_proj2d scene_image_def)
  have "px = [(2, 0, 0)]" "pxr = [(2, 0, 0)]"
    using len ent by (simp_all add: list_eq_iff_nth_eq)
  with run show ?thesis by simp
qed

lemma bright_residual:
  "residual_of (scene_functor_bright\<lparr>cameraPixelNoise2 := c\<rparr>) scene_junk scene_junk
     (0, 0, 0) (0, 0, 0) = Inr [cv_divide 1 (sqrt (2 * c))]"
  by (simp add: residual_of_def regRes_of_def noise_irrelevant bright_pixels bright_valid
      bright_fields photometric_def regularised_def sub_row_def sub_u8_def row_norm_def
      Let_def)

section \<open>The claims\<close>

text \<open>
  C1. The claim: the valid ratio that the driver reports is the fraction of the reference
  points whose reprojection under the final relative pose lies in the image bounds
  \<open>[0, width) \<times> [0, height)\<close>, and it is 1 for the identity pose when every point lies
  in the bounds. The mask of the driver compares the column \<open>u\<close> with the number of rows
  and the row \<open>v\<close> with the number of columns, where the residual model compares \<open>u\<close>
  with the columns and \<open>v\<close> with the rows. In the scene the image is 4 wide and 2 high,
  the only point reprojects to the pixel (3, 1) under the identity pose, all of the points
  are in the bounds and the mask of the residual model is set, and the driver reports the
  ratio 0.
\<close>

theorem valid_ratio_compares_x_with_height:
  "driver_proj2d (arg_K scene_world) (arg_pRefKF scene_world) (Rodrigues (0, 0, 0))
     (Trel_of (0, 0, 0) (0, 0, 0)) = [(3, 1)] \<and>
   fraction_in_image (arg_imColor scene_world) [(3, 1)] = 1 \<and>
   valid_of (CostFunctor_new (arg_imColor scene_world) (arg_pRefKF scene_world)
       (arg_K scene_world) (arg_invK scene_world) (1 / 2)) (0, 0, 0) (0, 0, 0) ! 0 = 255 \<and>
   arg_validRatio (snd (EstimateCameraPose scene_settings scene_solver (1 / 2) 1 scene_world)) =
     Some 0"
proof -
  have m: "valid_of (CostFunctor_new (arg_imColor scene_world) (arg_pRefKF scene_world)
       (arg_K scene_world) (arg_invK scene_world) (1 / 2)) (0, 0, 0) (0, 0, 0) ! 0 = 255"
    using scene_inside_valid by (simp add: scene_world_def)
  have p: "driver_proj2d (arg_K scene_world) (arg_pRefKF scene_world) (Rodrigues (0, 0, 0))
     (Trel_of (0, 0, 0) (0, 0, 0)) = [(3, 1)]"
    using scene_driver_proj2d by (simp add: scene_world_def)
  have f: "fraction_in_image (arg_imColor scene_world) [(3, 1)] = 1"
    by (simp add: fraction_in_image_def in_image_def scene_world_def scene_image_def)
  have v: "driver_valid scene_image [(3, 1)] = [0]"
    by (simp add: driver_valid_def ge_scalar_def lt_scalar_def bitwise_and_def scene_image_def)
  have "arg_validRatio (snd (EstimateCameraPose scene_settings scene_solver (1 / 2) 1 scene_world)) =
     Some 0"
    using p v
    by (simp add: EstimateCameraPose_def scene_solver_def Let_def ratio_of_def scene_world_def)
  with p f m show ?thesis by blast
qed

text \<open>
  C2. In the evaluation of the residual model a reference point \<open>i\<close> is classified valid
  if and only if both its primary projected pixel and its uncertainty-shifted projected
  pixel lie in the image bounds \<open>[0, width) \<times> [0, height)\<close>, for every point index and
  every candidate pose \<open>r\<close>, \<open>t\<close>. The keyframe has one row per point in each of its
  arrays.
\<close>

theorem valid_iff_both_pixels_in_bounds:
  assumes "wf_KeyFrame (pReferenceKF F)" and "i < length (mHighGradPtDepth (pReferenceKF F))"
  shows "valid_of F r t ! i \<noteq> 0 \<longleftrightarrow>
           in_image (imColor F) (proj2d_of F r t ! i) \<and>
           in_image (imColor F) (proj2dRight_of F r t ! i)"
  using assms by (simp add: nth_valid_of)

theorem valid_iff_both_pixels_in_bounds_witness:
  "wf_KeyFrame (pReferenceKF scene_functor) \<and>
   0 < length (mHighGradPtDepth (pReferenceKF scene_functor)) \<and>
   valid_of scene_functor (0, 0, 0) (0, 0, 0) ! 0 \<noteq> 0 \<and>
   valid_of scene_functor (0, 0, 0) (0, 0, 0) ! 1 = 0"
  using valid_iff_both_pixels_in_bounds [of scene_functor 0 "(0, 0, 0)" "(0, 0, 0)"]
    valid_iff_both_pixels_in_bounds [of scene_functor 1 "(0, 0, 0)" "(0, 0, 0)"]
  by (simp add: scene_functor_fields scene_keyframe_wf scene_proj2d scene_proj2dRight
      in_image_def scene_image_def)

text \<open>
  C3. The claim: for a valid point the model emits \<open>res / sqrt ((resShift - res)\<^sup>2 + 2 *
  noise)\<close>, where \<open>res\<close> and \<open>resShift\<close> are the L2 colour errors between the reference
  colour and the image at the two pixels. The code subtracts the two 8-bit matrices before
  it converts to float, so a channel in which the image is brighter than the reference
  contributes 0. In the scene the first point is valid, both of its pixels are (3, 1), the
  reference colour is (0, 0, 0) and the image colour is (2, 0, 0): the L2 colour error is
  2 and the normalised residual of the claim is 2, and the code emits 0.
\<close>

theorem saturated_difference_residual:
  "valid_of scene_functor (0, 0, 0) (0, 0, 0) ! 0 \<noteq> 0 \<and>
   proj2d_of scene_functor (0, 0, 0) (0, 0, 0) ! 0 = (3, 1) \<and>
   proj2dRight_of scene_functor (0, 0, 0) (0, 0, 0) ! 0 = (3, 1) \<and>
   CostFunctor_operator T_double scene_junk scene_junk (0, 0, 0) (0, 0, 0) scene_state =
     Inr (True, scene_state\<lparr>residual := [0, 0, 7]\<rparr>) \<and>
   normalised_residual (cameraPixelNoise2 scene_functor)
     (l2_color_error (mHighGradPtPixels scene_keyframe ! 0) (data scene_image 1 3))
     (l2_color_error (mHighGradPtPixels scene_keyframe ! 0) (data scene_image 1 3)) = 2"
  by (simp add: scene_valid scene_proj2d scene_proj2dRight scene_operator
      normalised_residual_def l2_color_error_def scene_functor_fields scene_keyframe_def
      scene_image_def)

text \<open>
  C4. Whenever at least one point is valid, the entry that the evaluation emits for an
  invalid point is the arithmetic mean of the normalised residuals over the valid points,
  and the emitted vector has one entry for each of the N points.
\<close>

theorem invalid_points_get_mean:
  assumes "wf_KeyFrame (pReferenceKF (self s))" and "T = T_double \<or> T = T_float"
    and "\<exists>j<length (mHighGradPtDepth (pReferenceKF (self s))). valid_of (self s) r t ! j \<noteq> 0"
  shows "\<exists>rho rs. regRes_of (self s) junk junkRight r t = Inr rho \<and>
           CostFunctor_operator T junk junkRight r t s =
             Inr (True, s\<lparr>residual := rs @ drop (length rs) (residual s)\<rparr>) \<and>
           length rs = length (mHighGradPtDepth (pReferenceKF (self s))) \<and>
           (\<forall>i<length (mHighGradPtDepth (pReferenceKF (self s))).
              valid_of (self s) r t ! i = 0 \<longrightarrow>
              rs ! i = mean_over_valid rho (valid_of (self s) r t))"
proof -
  let ?n = "length (mHighGradPtDepth (pReferenceKF (self s)))"
  let ?v = "valid_of (self s) r t"
  from residual_of_ok [OF assms(1), of junk junkRight r t]
  obtain rho rs where rho: "regRes_of (self s) junk junkRight r t = Inr rho" "length rho = ?n"
    and rs: "residual_of (self s) junk junkRight r t = Inr rs" "length rs = ?n"
    and fill: "\<forall>i<?n. rs ! i = (if ?v ! i = 0 then cv_mean rho ?v else rho ! i)"
    by blast
  have lv: "length ?v = ?n" using assms(1) by (rule length_valid_of)
  have mean: "cv_mean rho ?v = mean_over_valid rho ?v"
    using rho(2) lv by (simp add: cv_mean_eq_mean_over_valid)
  have "CostFunctor_operator T junk junkRight r t s =
          Inr (True, s\<lparr>residual := rs @ drop (length rs) (residual s)\<rparr>)"
    using assms(2) rs(1) by (auto simp: CostFunctor_operator_def memcpy_def)
  moreover have "\<forall>i<?n. ?v ! i = 0 \<longrightarrow> rs ! i = mean_over_valid rho ?v"
    using fill mean by simp
  ultimately show ?thesis using rho(1) rs(2) by blast
qed

theorem invalid_points_get_mean_witness:
  "wf_KeyFrame (pReferenceKF (self scene_state)) \<and>
   (\<exists>j<length (mHighGradPtDepth (pReferenceKF (self scene_state))).
      valid_of (self scene_state) (0, 0, 0) (0, 0, 0) ! j \<noteq> 0) \<and>
   (\<exists>rho rs. regRes_of (self scene_state) scene_junk scene_junk (0, 0, 0) (0, 0, 0) = Inr rho \<and>
      CostFunctor_operator T_double scene_junk scene_junk (0, 0, 0) (0, 0, 0) scene_state =
        Inr (True, scene_state\<lparr>residual := rs @ drop (length rs) (residual scene_state)\<rparr>) \<and>
      length rs = 2 \<and>
      rs ! 1 = mean_over_valid rho (valid_of (self scene_state) (0, 0, 0) (0, 0, 0)))"
proof -
  have wf: "wf_KeyFrame (pReferenceKF (self scene_state))"
    by (simp add: scene_state_fields scene_functor_fields scene_keyframe_wf)
  have ex: "\<exists>j<length (mHighGradPtDepth (pReferenceKF (self scene_state))).
      valid_of (self scene_state) (0, 0, 0) (0, 0, 0) ! j \<noteq> 0"
    by (rule exI [of _ 0])
      (simp add: scene_state_fields scene_functor_fields scene_keyframe_wf scene_valid)
  from invalid_points_get_mean [OF wf _ ex, of T_double scene_junk scene_junk]
  obtain rho rs where
    rho: "regRes_of (self scene_state) scene_junk scene_junk (0, 0, 0) (0, 0, 0) = Inr rho" and
    run: "CostFunctor_operator T_double scene_junk scene_junk (0, 0, 0) (0, 0, 0) scene_state =
        Inr (True, scene_state\<lparr>residual := rs @ drop (length rs) (residual scene_state)\<rparr>)" and
    len: "length rs = length (mHighGradPtDepth (pReferenceKF (self scene_state)))" and
    fill: "\<forall>i<length (mHighGradPtDepth (pReferenceKF (self scene_state))).
              valid_of (self scene_state) (0, 0, 0) (0, 0, 0) ! i = 0 \<longrightarrow>
              rs ! i = mean_over_valid rho (valid_of (self scene_state) (0, 0, 0) (0, 0, 0))"
    by auto
  have len2: "length rs = 2"
    using len by (simp add: scene_state_fields scene_functor_fields scene_keyframe_wf)
  from fill [rule_format, of 1]
  have "rs ! 1 = mean_over_valid rho (valid_of (self scene_state) (0, 0, 0) (0, 0, 0))"
    by (simp add: scene_state_fields scene_functor_fields scene_keyframe_wf scene_valid)
  with wf ex rho run len2 show ?thesis by blast
qed

text \<open>
  C5. The relative transform \<open>Trel\<close> has the Rodrigues rotation of the solved rotation
  vector in its upper left 3x3 block, the solved translation in the first three rows of
  its last column, and the last row (0, 0, 0, 1); the pose that the driver writes is the
  matrix product of \<open>Trel\<close> on the left and the pose of the reference keyframe on the
  right, entry by entry: the entry in row \<open>i\<close> and column \<open>j\<close> is the sum over \<open>k\<close> of
  the entries \<open>(i, k)\<close> of \<open>Trel\<close> times the entries \<open>(k, j)\<close> of the keyframe pose. In
  the scene the two orders of the product differ in the translation.
\<close>

theorem world_pose_is_relative_times_keyframe_pose:
  assumes "Solve (CostFunctor_operator T_double)
             (CostFunctor_new (arg_imColor w) (arg_pRefKF w) (arg_K w) (arg_invK w) noise2)
             (TRACKING_HUBER_DELTA cfg) max_seconds (0, 0, 0) (0, 0, 0) = (r, (tx, ty, tz), cost)"
    and "Rodrigues r = ((a, b, c), (d, e, f), (g, h, i))"
    and "GetPose (arg_pRefKF w) =
           ((p00, p01, p02, p03), (p10, p11, p12, p13), (p20, p21, p22, p23),
            (p30, p31, p32, p33))"
  shows "Trel_of r (tx, ty, tz) = ((a, b, c, tx), (d, e, f, ty), (g, h, i, tz), (0, 0, 0, 1)) \<and>
         arg_Tcw (snd (EstimateCameraPose cfg Solve noise2 max_seconds w)) =
           ((a * p00 + b * p10 + c * p20 + tx * p30, a * p01 + b * p11 + c * p21 + tx * p31,
             a * p02 + b * p12 + c * p22 + tx * p32, a * p03 + b * p13 + c * p23 + tx * p33),
            (d * p00 + e * p10 + f * p20 + ty * p30, d * p01 + e * p11 + f * p21 + ty * p31,
             d * p02 + e * p12 + f * p22 + ty * p32, d * p03 + e * p13 + f * p23 + ty * p33),
            (g * p00 + h * p10 + i * p20 + tz * p30, g * p01 + h * p11 + i * p21 + tz * p31,
             g * p02 + h * p12 + i * p22 + tz * p32, g * p03 + h * p13 + i * p23 + tz * p33),
            (p30, p31, p32, p33))"
  using assms
  by (simp add: EstimateCameraPose_def Let_def Trel_of_shape mat4_mul_def row4_mul_def)

theorem world_pose_is_relative_times_keyframe_pose_witness:
  "scene_solver_moved (CostFunctor_operator T_double)
     (CostFunctor_new (arg_imColor scene_world_posed) (arg_pRefKF scene_world_posed)
        (arg_K scene_world_posed) (arg_invK scene_world_posed) (1 / 2))
     (TRACKING_HUBER_DELTA scene_settings) 1 (0, 0, 0) (0, 0, 0) = ((0, 0, pi), (1, 2, 3), 0) \<and>
   Rodrigues (0, 0, pi) = ((- 1, 0, 0), (0, - 1, 0), (0, 0, 1)) \<and>
   GetPose (arg_pRefKF scene_world_posed) =
     ((0, - 1, 0, 5), (1, 0, 0, 6), (0, 0, 1, 7), (0, 0, 0, 1)) \<and>
   Trel_of (0, 0, pi) (1, 2, 3) = ((- 1, 0, 0, 1), (0, - 1, 0, 2), (0, 0, 1, 3), (0, 0, 0, 1)) \<and>
   arg_Tcw (snd (EstimateCameraPose scene_settings scene_solver_moved (1 / 2) 1
       scene_world_posed)) =
     ((0, 1, 0, - 4), (- 1, 0, 0, - 4), (0, 0, 1, 10), (0, 0, 0, 1))"
proof -
  have s: "scene_solver_moved (CostFunctor_operator T_double)
     (CostFunctor_new (arg_imColor scene_world_posed) (arg_pRefKF scene_world_posed)
        (arg_K scene_world_posed) (arg_invK scene_world_posed) (1 / 2))
     (TRACKING_HUBER_DELTA scene_settings) 1 (0, 0, 0) (0, 0, 0) = ((0, 0, pi), (1, 2, 3), 0)"
    by (simp add: scene_solver_moved_def)
  have p: "GetPose (arg_pRefKF scene_world_posed) =
     ((0, - 1, 0, 5), (1, 0, 0, 6), (0, 0, 1, 7), (0, 0, 0, 1))"
    by (simp add: GetPose_def scene_world_posed_def scene_pose_def)
  from world_pose_is_relative_times_keyframe_pose
    [where Solve = scene_solver_moved and w = scene_world_posed and cfg = scene_settings,
      OF s Rodrigues_half_turn p]
  have "Trel_of (0, 0, pi) (1, 2, 3) =
          ((- 1, 0, 0, 1), (0, - 1, 0, 2), (0, 0, 1, 3), (0, 0, 0, 1)) \<and>
        arg_Tcw (snd (EstimateCameraPose scene_settings scene_solver_moved (1 / 2) 1
            scene_world_posed)) =
          ((0, 1, 0, - 4), (- 1, 0, 0, - 4), (0, 0, 1, 10), (0, 0, 0, 1))"
    by simp
  with s Rodrigues_half_turn p show ?thesis by blast
qed

text \<open>
  C6. An evaluation with a scalar type other than float or double returns false and
  leaves the residual array as it was; with float or double it never returns false.
\<close>

theorem unsupported_scalar_fails:
  "CostFunctor_operator T_other junk junkRight r t s = Inr (False, s) \<and>
   CostFunctor_operator T_double junk junkRight r t s \<noteq> Inr (False, s') \<and>
   CostFunctor_operator T_float junk junkRight r t s \<noteq> Inr (False, s')"
  by (simp add: CostFunctor_operator_def split: sum.split)

theorem unsupported_scalar_fails_witness:
  "CostFunctor_operator T_other scene_junk scene_junk (0, 0, 0) (0, 0, 0) scene_state =
     Inr (False, scene_state) \<and>
   CostFunctor_operator T_double scene_junk scene_junk (0, 0, 0) (0, 0, 0) scene_state \<noteq>
     Inr (False, scene_state)"
  using unsupported_scalar_fails [of scene_junk scene_junk "(0, 0, 0)" "(0, 0, 0)" scene_state
      scene_state]
  by simp

text \<open>
  C7. The new image is sampled only for the points whose validity mask is set, and no
  sample is taken outside of the image: the extraction of the pixels ends without an
  out-of-bounds access for every candidate pose, it leaves the rows of the invalid points
  as they were allocated, and the evaluation does not end in an out-of-bounds access.
\<close>

theorem sampling_stays_in_bounds:
  assumes "wf_KeyFrame (pReferenceKF (self s))"
  shows "(\<exists>px pxr. pixels_of (self s) junk junkRight r t = Inr (px, pxr) \<and>
            (\<forall>i<length (mHighGradPtDepth (pReferenceKF (self s))).
               valid_of (self s) r t ! i = 0 \<longrightarrow> px ! i = junk i \<and> pxr ! i = junkRight i)) \<and>
         CostFunctor_operator T junk junkRight r t s \<noteq> Inl OutOfBounds"
proof -
  from pixels_of_ok [OF assms, of junk junkRight r t]
  have "\<exists>px pxr. pixels_of (self s) junk junkRight r t = Inr (px, pxr) \<and>
            (\<forall>i<length (mHighGradPtDepth (pReferenceKF (self s))).
               valid_of (self s) r t ! i = 0 \<longrightarrow> px ! i = junk i \<and> pxr ! i = junkRight i)"
    by fastforce
  moreover have "CostFunctor_operator T junk junkRight r t s \<noteq> Inl OutOfBounds"
  proof (cases "T = T_double \<or> T = T_float")
    case True
    from operator_ok [OF assms True, of junk junkRight r t] show ?thesis by auto
  next
    case False
    then show ?thesis by (simp add: CostFunctor_operator_def)
  qed
  ultimately show ?thesis by blast
qed

theorem sampling_stays_in_bounds_witness:
  "wf_KeyFrame (pReferenceKF (self scene_state)) \<and>
   (\<exists>px pxr. pixels_of (self scene_state) scene_junk scene_junk (0, 0, 0) (0, 0, 0) =
        Inr (px, pxr) \<and> px ! 1 = (9, 9, 9) \<and> pxr ! 1 = (9, 9, 9)) \<and>
   CostFunctor_operator T_double scene_junk scene_junk (0, 0, 0) (0, 0, 0) scene_state \<noteq>
     Inl OutOfBounds"
proof -
  have wf: "wf_KeyFrame (pReferenceKF (self scene_state))"
    by (simp add: scene_state_fields scene_functor_fields scene_keyframe_wf)
  from sampling_stays_in_bounds [OF wf, of scene_junk scene_junk "(0, 0, 0)" "(0, 0, 0)" T_double]
  obtain px pxr where
    run: "pixels_of (self scene_state) scene_junk scene_junk (0, 0, 0) (0, 0, 0) = Inr (px, pxr)" and
    keep: "\<forall>i<length (mHighGradPtDepth (pReferenceKF (self scene_state))).
             valid_of (self scene_state) (0, 0, 0) (0, 0, 0) ! i = 0 \<longrightarrow>
             px ! i = scene_junk i \<and> pxr ! i = scene_junk i" and
    safe: "CostFunctor_operator T_double scene_junk scene_junk (0, 0, 0) (0, 0, 0) scene_state \<noteq>
             Inl OutOfBounds"
    by blast
  from keep [rule_format, of 1] have "px ! 1 = (9, 9, 9) \<and> pxr ! 1 = (9, 9, 9)"
    by (simp add: scene_state_fields scene_functor_fields scene_keyframe_wf scene_valid
        scene_junk_def)
  with wf run safe show ?thesis by blast
qed

text \<open>
  C8. With the image, the reference points, the calibration and the candidate pose fixed,
  and for positive pixel noise variances, a larger variance gives entries of the residual
  vector that are no larger in magnitude, for the valid and for the invalid points, and a
  sum of squared residuals that is no larger.
\<close>

theorem more_noise_no_larger_residuals:
  assumes "wf_KeyFrame (pReferenceKF F)" and "0 < c1" and "c1 \<le> c2"
  shows "\<exists>rs1 rs2.
           residual_of (F\<lparr>cameraPixelNoise2 := c1\<rparr>) junk junkRight r t = Inr rs1 \<and>
           residual_of (F\<lparr>cameraPixelNoise2 := c2\<rparr>) junk junkRight r t = Inr rs2 \<and>
           length rs1 = length (mHighGradPtDepth (pReferenceKF F)) \<and>
           length rs2 = length (mHighGradPtDepth (pReferenceKF F)) \<and>
           (\<forall>i<length (mHighGradPtDepth (pReferenceKF F)). \<bar>rs2 ! i\<bar> \<le> \<bar>rs1 ! i\<bar>) \<and>
           sum_squares rs2 \<le> sum_squares rs1"
proof -
  let ?n = "length (mHighGradPtDepth (pReferenceKF F))"
  let ?F1 = "F\<lparr>cameraPixelNoise2 := c1\<rparr>" and ?F2 = "F\<lparr>cameraPixelNoise2 := c2\<rparr>"
  let ?v = "valid_of F r t"
  let ?ref = "mHighGradPtPixels (pReferenceKF F)"
  have wf1: "wf_KeyFrame (pReferenceKF ?F1)" and wf2: "wf_KeyFrame (pReferenceKF ?F2)"
    using assms(1) by simp_all
  have lv: "length ?v = ?n" using assms(1) by (rule length_valid_of)
  from regRes_of_ok [OF assms(1), of junk junkRight r t]
  obtain px pxr where px: "pixels_of F junk junkRight r t = Inr (px, pxr)"
    and len: "length px = ?n" "length pxr = ?n"
    by blast
  let ?a = "photometric ?ref px" and ?b = "photometric ?ref pxr"
  have la: "length ?a = ?n" "length ?b = ?n"
    using assms(1) len by (simp_all add: wf_KeyFrame_def)
  let ?rho1 = "regularised c1 ?a ?b" and ?rho2 = "regularised c2 ?a ?b"
  have rho1: "regRes_of ?F1 junk junkRight r t = Inr ?rho1"
    and rho2: "regRes_of ?F2 junk junkRight r t = Inr ?rho2"
    using px by (simp_all add: regRes_of_def noise_irrelevant Let_def)
  have lrho: "length ?rho1 = ?n" "length ?rho2 = ?n" using la by simp_all
  have pt: "\<forall>i<?n. 0 \<le> ?rho2 ! i \<and> ?rho2 ! i \<le> ?rho1 ! i"
  proof (intro allI impI)
    fix i assume i: "i < ?n"
    then have "0 \<le> ?a ! i" using la by (simp add: photometric_nonneg)
    from cv_divide_noise_mono [OF this assms(2,3), of "?b ! i - ?a ! i"] i la
    show "0 \<le> ?rho2 ! i \<and> ?rho2 ! i \<le> ?rho1 ! i"
      by (simp add: nth_regularised)
  qed
  have m: "cv_mean ?rho1 ?v = mean_over_valid ?rho1 ?v" "cv_mean ?rho2 ?v = mean_over_valid ?rho2 ?v"
    using lrho lv by (simp_all add: cv_mean_eq_mean_over_valid)
  have mm: "0 \<le> cv_mean ?rho2 ?v" "cv_mean ?rho2 ?v \<le> cv_mean ?rho1 ?v"
    using mean_over_valid_mono [of ?v ?rho2 ?rho1] pt lv m by simp_all
  let ?rs1 = "fill_invalid ?v (cv_mean ?rho1 ?v) [0..<?n] ?rho1"
  let ?rs2 = "fill_invalid ?v (cv_mean ?rho2 ?v) [0..<?n] ?rho2"
  have r1: "residual_of ?F1 junk junkRight r t = Inr ?rs1"
    and r2: "residual_of ?F2 junk junkRight r t = Inr ?rs2"
    by (simp_all add: residual_of_def rho1 rho2 noise_irrelevant Let_def lv)
  have lrs: "length ?rs1 = ?n" "length ?rs2 = ?n" using lrho by simp_all
  have ent: "\<forall>i<?n. 0 \<le> ?rs2 ! i \<and> ?rs2 ! i \<le> ?rs1 ! i"
    using pt mm lrho by (simp add: nth_fill_invalid)
  then have abs: "\<forall>i<?n. \<bar>?rs2 ! i\<bar> \<le> \<bar>?rs1 ! i\<bar>" by fastforce
  have "sum_squares ?rs2 \<le> sum_squares ?rs1"
    using ent lrs by (intro sum_squares_mono) simp_all
  with r1 r2 lrs abs show ?thesis by blast
qed

theorem more_noise_no_larger_residuals_witness:
  "wf_KeyFrame (pReferenceKF scene_functor_bright) \<and> (0::real) < 1 / 2 \<and> (1 / 2 :: real) \<le> 2 \<and>
   (\<exists>rs1 rs2.
      residual_of (scene_functor_bright\<lparr>cameraPixelNoise2 := 1 / 2\<rparr>) scene_junk scene_junk
        (0, 0, 0) (0, 0, 0) = Inr rs1 \<and>
      residual_of (scene_functor_bright\<lparr>cameraPixelNoise2 := 2\<rparr>) scene_junk scene_junk
        (0, 0, 0) (0, 0, 0) = Inr rs2 \<and>
      rs1 = [1] \<and> rs2 = [1 / 2] \<and> \<bar>rs2 ! 0\<bar> \<le> \<bar>rs1 ! 0\<bar> \<and>
      sum_squares rs2 \<le> sum_squares rs1)"
proof -
  have wf: "wf_KeyFrame (pReferenceKF scene_functor_bright)"
    by (simp add: bright_fields)
  have c: "(0::real) < 1 / 2" "(1 / 2 :: real) \<le> 2" by simp_all
  from more_noise_no_larger_residuals [OF wf c, of scene_junk scene_junk "(0, 0, 0)" "(0, 0, 0)"]
  obtain rs1 rs2 where
    r1: "residual_of (scene_functor_bright\<lparr>cameraPixelNoise2 := 1 / 2\<rparr>) scene_junk scene_junk
        (0, 0, 0) (0, 0, 0) = Inr rs1" and
    r2: "residual_of (scene_functor_bright\<lparr>cameraPixelNoise2 := 2\<rparr>) scene_junk scene_junk
        (0, 0, 0) (0, 0, 0) = Inr rs2" and
    ent: "\<forall>i<length (mHighGradPtDepth (pReferenceKF scene_functor_bright)).
            \<bar>rs2 ! i\<bar> \<le> \<bar>rs1 ! i\<bar>" and
    sq: "sum_squares rs2 \<le> sum_squares rs1"
    by blast
  from r1 have v1: "rs1 = [1]" by (simp add: bright_residual cv_divide_def)
  from r2 have v2: "rs2 = [1 / 2]" by (simp add: bright_residual cv_divide_def)
  from ent [rule_format, of 0] have "\<bar>rs2 ! 0\<bar> \<le> \<bar>rs1 ! 0\<bar>"
    by (simp add: bright_fields)
  with wf c r1 r2 v1 v2 sq show ?thesis by blast
qed

text \<open>
  C8, as the claim has it, for every pair of variances: it fails from the variance 0 to
  the variance 1/2. The point of the scene is valid, its two colour errors are both 1, so
  its normaliser at the variance 0 is zero and the quotient that the code stores is 0; at
  the variance 1/2 the entry is 1. The entry and the sum of squares grow.
\<close>

theorem zero_noise_gives_smaller_residual:
  "(0::real) \<le> 1 / 2 \<and>
   valid_of scene_functor_bright (0, 0, 0) (0, 0, 0) ! 0 \<noteq> 0 \<and>
   residual_of (scene_functor_bright\<lparr>cameraPixelNoise2 := 0\<rparr>) scene_junk scene_junk
     (0, 0, 0) (0, 0, 0) = Inr [0] \<and>
   residual_of (scene_functor_bright\<lparr>cameraPixelNoise2 := 1 / 2\<rparr>) scene_junk scene_junk
     (0, 0, 0) (0, 0, 0) = Inr [1] \<and>
   \<not> \<bar>[1 :: real] ! 0\<bar> \<le> \<bar>[0 :: real] ! 0\<bar> \<and>
   \<not> sum_squares [1] \<le> sum_squares [0]"
  by (simp add: bright_valid bright_residual cv_divide_def sum_squares_def)

text \<open>
  C9. Neither the evaluation of the residual model nor the driver writes to its inputs.
  An evaluation that returns leaves the functor, with the image, the calibration and the
  keyframe it refers to, as it was, and changes the residual array at most. The driver
  changes at most the output pose and the three optional outputs; the image, the intrinsic
  matrix, its inverse and the keyframe are as before the call.
\<close>

theorem inputs_are_not_written:
  "(CostFunctor_operator T junk junkRight r t s = Inr (b, s') \<longrightarrow>
      self s' = self s \<and> (\<exists>rs. s' = s\<lparr>residual := rs\<rparr>)) \<and>
   (\<exists>T' a d v. snd (EstimateCameraPose cfg Solve noise2 max_seconds w) =
      w\<lparr>arg_Tcw := T', arg_rotAngle := a, arg_transDist := d, arg_validRatio := v\<rparr>) \<and>
   arg_imColor (snd (EstimateCameraPose cfg Solve noise2 max_seconds w)) = arg_imColor w \<and>
   arg_K (snd (EstimateCameraPose cfg Solve noise2 max_seconds w)) = arg_K w \<and>
   arg_invK (snd (EstimateCameraPose cfg Solve noise2 max_seconds w)) = arg_invK w \<and>
   arg_pRefKF (snd (EstimateCameraPose cfg Solve noise2 max_seconds w)) = arg_pRefKF w"
proof -
  have 1: "CostFunctor_operator T junk junkRight r t s = Inr (b, s') \<longrightarrow>
      self s' = self s \<and> (\<exists>rs. s' = s\<lparr>residual := rs\<rparr>)"
  proof
    assume run: "CostFunctor_operator T junk junkRight r t s = Inr (b, s')"
    show "self s' = self s \<and> (\<exists>rs. s' = s\<lparr>residual := rs\<rparr>)"
    proof (cases "T \<noteq> T_double \<and> T \<noteq> T_float")
      case True
      with run have "s' = s" by (simp add: CostFunctor_operator_def)
      then have "s' = s\<lparr>residual := residual s\<rparr>" by simp
      then show ?thesis by (metis EvalState.surjective EvalState.update_convs(2))
    next
      case False
      with run obtain rs where "s' = s\<lparr>residual := rs\<rparr>"
        by (auto simp: CostFunctor_operator_def split: sum.splits)
      then show ?thesis by auto
    qed
  qed
  obtain r' t' c' where sol: "Solve (CostFunctor_operator T_double)
             (CostFunctor_new (arg_imColor w) (arg_pRefKF w) (arg_K w) (arg_invK w) noise2)
             (TRACKING_HUBER_DELTA cfg) max_seconds (0, 0, 0) (0, 0, 0) = (r', t', c')"
    by (rule prod_cases3)
  have eq: "snd (EstimateCameraPose cfg Solve noise2 max_seconds w) =
      w\<lparr>arg_Tcw := mat4_mul (Trel_of r' t') (GetPose (arg_pRefKF w)),
        arg_rotAngle := map_option (\<lambda>_. RotationAngle (Rodrigues r')) (arg_rotAngle w),
        arg_transDist :=
          map_option (\<lambda>_. TranslationDist (col3_rows012 (Trel_of r' t'))) (arg_transDist w),
        arg_validRatio :=
          map_option
            (\<lambda>_. ratio_of
                    (driver_valid (arg_imColor w)
                       (driver_proj2d (arg_K w) (arg_pRefKF w) (Rodrigues r') (Trel_of r' t'))))
            (arg_validRatio w)\<rparr>"
    using sol by (simp add: EstimateCameraPose_def Let_def)
  have 2: "\<exists>T' a d v. snd (EstimateCameraPose cfg Solve noise2 max_seconds w) =
      w\<lparr>arg_Tcw := T', arg_rotAngle := a, arg_transDist := d, arg_validRatio := v\<rparr>"
    by (intro exI) (rule eq)
  then obtain T' a d v where 3: "snd (EstimateCameraPose cfg Solve noise2 max_seconds w) =
      w\<lparr>arg_Tcw := T', arg_rotAngle := a, arg_transDist := d, arg_validRatio := v\<rparr>"
    by blast
  show ?thesis using 1 2 unfolding 3 by simp
qed

theorem inputs_are_not_written_witness:
  "CostFunctor_operator T_double scene_junk scene_junk (0, 0, 0) (0, 0, 0) scene_state =
     Inr (True, scene_state\<lparr>residual := [0, 0, 7]\<rparr>) \<and>
   self (scene_state\<lparr>residual := [0, 0, 7]\<rparr>) = scene_functor \<and>
   arg_imColor (snd (EstimateCameraPose scene_settings scene_solver (1 / 2) 1 scene_world)) =
     scene_image \<and>
   arg_K (snd (EstimateCameraPose scene_settings scene_solver (1 / 2) 1 scene_world)) =
     identity3 \<and>
   arg_invK (snd (EstimateCameraPose scene_settings scene_solver (1 / 2) 1 scene_world)) =
     identity3 \<and>
   arg_pRefKF (snd (EstimateCameraPose scene_settings scene_solver (1 / 2) 1 scene_world)) =
     scene_keyframe_inside"
  using inputs_are_not_written
    [where T = T_double and junk = scene_junk and junkRight = scene_junk and r = "(0, 0, 0)"
       and t = "(0, 0, 0)" and s = scene_state and b = True
       and s' = "scene_state\<lparr>residual := [0, 0, 7]\<rparr>" and cfg = scene_settings
       and Solve = scene_solver and ?noise2.0 = "1 / 2" and max_seconds = 1 and w = scene_world]
    scene_operator
  by (simp add: scene_world_def scene_state_fields)

text \<open>
  C10. When no reference point is valid under the candidate pose, the evaluation still
  returns true, and every one of the N entries that it emits is zero.
\<close>

theorem all_invalid_gives_zero_residuals:
  assumes "wf_KeyFrame (pReferenceKF (self s))" and "T = T_double \<or> T = T_float"
    and "\<forall>i<length (mHighGradPtDepth (pReferenceKF (self s))). valid_of (self s) r t ! i = 0"
  shows "CostFunctor_operator T junk junkRight r t s =
           Inr (True, s\<lparr>residual :=
                  replicate (length (mHighGradPtDepth (pReferenceKF (self s)))) 0 @
                  drop (length (mHighGradPtDepth (pReferenceKF (self s)))) (residual s)\<rparr>)"
proof -
  let ?n = "length (mHighGradPtDepth (pReferenceKF (self s)))"
  let ?v = "valid_of (self s) r t"
  from residual_of_ok [OF assms(1), of junk junkRight r t]
  obtain rho rs where rho: "regRes_of (self s) junk junkRight r t = Inr rho" "length rho = ?n"
    and rs: "residual_of (self s) junk junkRight r t = Inr rs" "length rs = ?n"
    and fill: "\<forall>i<?n. rs ! i = (if ?v ! i = 0 then cv_mean rho ?v else rho ! i)"
    by blast
  have lv: "length ?v = ?n" using assms(1) by (rule length_valid_of)
  have "cv_mean rho ?v = 0"
    using rho(2) lv assms(3) by (simp add: cv_mean_all_invalid)
  with fill assms(3) have "\<forall>i<?n. rs ! i = 0" by simp
  with rs(2) have "rs = replicate ?n 0"
    by (simp add: list_eq_iff_nth_eq)
  moreover have "CostFunctor_operator T junk junkRight r t s =
          Inr (True, s\<lparr>residual := rs @ drop (length rs) (residual s)\<rparr>)"
    using assms(2) rs(1) by (auto simp: CostFunctor_operator_def memcpy_def)
  ultimately show ?thesis by simp
qed

theorem all_invalid_gives_zero_residuals_witness:
  "wf_KeyFrame (pReferenceKF (self scene_state)) \<and>
   length (mHighGradPtDepth (pReferenceKF (self scene_state))) = 2 \<and>
   valid_of (self scene_state) (0, 0, 0) (100, 0, 0) ! 0 = 0 \<and>
   valid_of (self scene_state) (0, 0, 0) (100, 0, 0) ! 1 = 0 \<and>
   CostFunctor_operator T_double scene_junk scene_junk (0, 0, 0) (100, 0, 0) scene_state =
     Inr (True, scene_state\<lparr>residual := [0, 0, 7]\<rparr>)"
proof -
  have wf: "wf_KeyFrame (pReferenceKF (self scene_state))"
    by (simp add: scene_state_fields scene_functor_fields scene_keyframe_wf)
  have inv: "\<forall>i<length (mHighGradPtDepth (pReferenceKF (self scene_state))).
      valid_of (self scene_state) (0, 0, 0) (100, 0, 0) ! i = 0"
    by (auto simp: scene_state_fields scene_functor_fields scene_keyframe_wf scene_valid_far
        less_two_cases)
  from all_invalid_gives_zero_residuals [OF wf _ inv, of T_double scene_junk scene_junk]
  have "CostFunctor_operator T_double scene_junk scene_junk (0, 0, 0) (100, 0, 0) scene_state =
     Inr (True, scene_state\<lparr>residual := [0, 0, 7]\<rparr>)"
    by (simp add: scene_state_fields scene_functor_fields scene_keyframe_wf numeral_2_eq_2)
  with wf show ?thesis
    by (simp add: scene_state_fields scene_functor_fields scene_keyframe_wf scene_valid_far)
qed

end
